theory Spec2Isabelle
  imports
    Main
    "HOL-Library.Finite_Map"
    "HOL-Library.Word"
    "HOL-Library.Char_ord"
    "HOL-Library.List_Lexorder"
    "HOL-Library.Multiset"
begin

section \<open>Data model (api/v1alpha1)\<close>

text \<open>
  Go errors are values. The only distinctions the code makes between errors are the
  predicates \<open>errors.IsAlreadyExists\<close> and \<open>errors.IsNotFound\<close> of the API machinery;
  every other error (including the ones built with \<open>fmt.Errorf\<close>) only carries its message.
\<close>

datatype error = AlreadyExists string | NotFound string | OtherError string

fun IsAlreadyExists :: "error \<Rightarrow> bool" where
  "IsAlreadyExists (AlreadyExists _) = True"
| "IsAlreadyExists _ = False"

fun IsNotFound :: "error \<Rightarrow> bool" where
  "IsNotFound (NotFound _) = True"
| "IsNotFound _ = False"

fun Error_msg :: "error \<Rightarrow> string" where
  "Error_msg (AlreadyExists m) = m"
| "Error_msg (NotFound m) = m"
| "Error_msg (OtherError m) = m"


text \<open>\<open>metav1.Time\<close> is a point in time; a \<open>*metav1.Time\<close> is an optional one.\<close>

type_synonym Time = nat

type_synonym int64 = "64 word"

type_synonym byte = "8 word"

record Condition =
  condType :: string
  condStatus :: string
  condReason :: string
  condMessage :: string

text \<open>
  \<open>BackupPhase\<close> and \<open>RestorePhase\<close> are string types restricted by the schema to four
  values (\<open>+kubebuilder:validation:Enum=Pending;Running;Completed;Failed\<close>).
\<close>

datatype BackupPhase =
  BackupPhasePending | BackupPhaseRunning | BackupPhaseCompleted | BackupPhaseFailed

datatype RestorePhase =
  RestorePhasePending | RestorePhaseRunning | RestorePhaseCompleted | RestorePhaseFailed

record BackupStatus =
  Phase :: BackupPhase
  Conditions :: "Condition list"
  StartedAt :: "Time option"
  CompletedAt :: "Time option"
  ArtifactLocation :: string
  ObservedGeneration :: int64
  Message :: string

text \<open>The fields of \<open>RestoreStatus\<close> carry the prefix \<open>r\<close>: record fields are global names.\<close>

record RestoreStatus =
  rPhase :: RestorePhase
  rConditions :: "Condition list"
  rStartedAt :: "Time option"
  rCompletedAt :: "Time option"
  rObservedGeneration :: int64
  rMessage :: string

datatype StorageLocationType = StorageLocationS3 | StorageLocationNFS | StorageLocationOther string

record S3LocationSpec =
  s3Endpoint :: string
  s3Bucket :: string
  s3Prefix :: string
  s3Region :: string

record NFSLocationSpec =
  nfsServer :: string
  nfsPath :: string
  nfsReadOnly :: bool

record BackupStorageLocationSpec =
  Type :: StorageLocationType
  S3 :: "S3LocationSpec option"
  NFS :: "NFSLocationSpec option"
  Default :: bool

record BackupStorageLocation =
  locName :: string
  locSpec :: BackupStorageLocationSpec

record NamespaceSelector =
  Included :: "string list"
  Excluded :: "string list"

text \<open>
  Of \<open>BackupSpec\<close> and \<open>RestoreSpec\<close> only the fields read by the functions modelled
  below are kept: \<open>StorageRef\<close> (a \<open>*LocalObjectReference\<close>, here its optional name),
  \<open>Timeout\<close> (in whole seconds) and, for restores, the source reference, the target
  cluster reference and the namespace mapping (a possibly nil \<open>map[string]string\<close>).
\<close>

record BackupSpec =
  StorageRef :: "string option"
  Timeout :: "int option"

record RestoreSourceRef =
  srcKind :: string
  srcName :: string
  srcNamespace :: string

record RestoreSpec =
  SourceRef :: RestoreSourceRef
  TargetClusterRef :: "string option"
  NamespaceMapping :: "(string, string) fmap option"
  rTimeout :: "int option"

section \<open>Storage-location resolution (internal/resolve/storage.go)\<close>

text \<open>
  The two reads \<open>StorageLocation\<close> makes against the resource store: \<open>c.Get\<close> of a named
  location and \<open>c.List\<close> of all locations. Each either fails or returns its result.
\<close>

record storeClient =
  getLocation :: "string \<Rightarrow> error + BackupStorageLocation"
  listLocations :: "error + BackupStorageLocation list"

definition StorageLocation :: "storeClient \<Rightarrow> string \<Rightarrow> error + BackupStorageLocation" where
  "StorageLocation c name =
     (if name \<noteq> [] then
        (case getLocation c name of Inl err \<Rightarrow> Inl err | Inr location \<Rightarrow> Inr location)
      else
        (case listLocations c of
           Inl err \<Rightarrow> Inl err
         | Inr items \<Rightarrow>
             if length items = 0 then Inl (OtherError ''no BackupStorageLocation found'')
             else (case find (\<lambda>l. Default (locSpec l)) items of
                     Some l \<Rightarrow> Inr l
                   | None \<Rightarrow>
                       if length items = 1 then Inr (items ! 0)
                       else Inl (OtherError ''no default BackupStorageLocation set''))))"

text \<open>A location with the given name and default flag, for concrete instances.\<close>

definition exampleLocation :: "string \<Rightarrow> bool \<Rightarrow> BackupStorageLocation" where
  "exampleLocation n d =
     \<lparr>locName = n,
      locSpec = \<lparr>Type = StorageLocationNFS, S3 = None,
                 NFS = Some \<lparr>nfsServer = ''10.0.0.10'', nfsPath = ''/exports/backups'',
                             nfsReadOnly = False\<rparr>,
                 Default = d\<rparr>\<rparr>"

section \<open>Failure-status constructors (cmd/worker_backup.go, cmd/worker_restore.go)\<close>

text \<open>
  \<open>backupObject\<close> is the worker's view of a Backup or ClusterBackup. Its \<open>updateStatus\<close>
  closure writes a status back to the resource store; the model returns the status to
  be written instead.
\<close>

record backupObject =
  kind :: string
  name :: string
  namespace :: string
  spec :: BackupSpec
  namespaces :: "NamespaceSelector option"
  includeClusterResources :: bool
  status :: BackupStatus

record restoreObject =
  rkind :: string
  rname :: string
  rnamespace :: string
  rspec :: RestoreSpec
  rstatus :: RestoreStatus

text \<open>\<open>metav1.Now()\<close> reads the clock; the instant read is the last argument.\<close>

definition failedBackupStatus ::
  "BackupStatus \<Rightarrow> backupObject \<Rightarrow> string \<Rightarrow> Time \<Rightarrow> BackupStatus" where
  "failedBackupStatus current backup message now =
     (let current = current\<lparr>Phase := BackupPhaseFailed\<rparr>;
          current = current\<lparr>Message := message\<rparr>;
          current = current\<lparr>CompletedAt := Some now\<rparr>;
          current = current\<lparr>ObservedGeneration := ObservedGeneration current\<rparr>
      in current)"

definition failedRestoreStatus :: "RestoreStatus \<Rightarrow> string \<Rightarrow> Time \<Rightarrow> RestoreStatus" where
  "failedRestoreStatus current message now =
     (let current = current\<lparr>rPhase := RestorePhaseFailed\<rparr>;
          current = current\<lparr>rMessage := message\<rparr>;
          current = current\<lparr>rCompletedAt := Some now\<rparr>;
          current = current\<lparr>rObservedGeneration := rObservedGeneration current\<rparr>
      in current)"

section \<open>Resource documents (unstructured.Unstructured)\<close>

text \<open>
  A resource document is a \<open>map[string]any\<close> holding decoded JSON: strings, numbers,
  booleans, null, lists and nested maps. Go maps have unique keys and no order, so a
  nested map is a finite map. The functions modelled below never inspect a number, so
  its representation is immaterial.
\<close>

datatype json =
  JNull | JBool bool | JNum int | JString string | JList "json list"
  | JMap "(string, json) fmap"

type_synonym unstructured = "(string, json) fmap"

text \<open>
  The accessors of the API machinery used by the workers, for the field paths the
  workers pass. \<open>RemoveNestedField\<close> walks the path through nested maps and deletes the
  last field, doing nothing when an inner value is missing or not a map.
\<close>

fun RemoveNestedField :: "unstructured \<Rightarrow> string list \<Rightarrow> unstructured" where
  "RemoveNestedField obj [] = obj"
| "RemoveNestedField obj [f] = fmdrop f obj"
| "RemoveNestedField obj (f # g # fs) =
     (case fmlookup obj f of
        Some (JMap m) \<Rightarrow> fmupd f (JMap (RemoveNestedField m (g # fs))) obj
      | _ \<Rightarrow> obj)"

text \<open>
  \<open>NestedFieldNoCopy\<close> returns the value at a path when every step is present and every
  inner value is a map; \<open>NestedMap\<close> and \<open>NestedString\<close> additionally require the value to
  be a map, respectively a string (the error they also report is discarded by every
  caller here).
\<close>

fun NestedFieldNoCopy :: "unstructured \<Rightarrow> string list \<Rightarrow> json option" where
  "NestedFieldNoCopy obj [] = Some (JMap obj)"
| "NestedFieldNoCopy obj [f] = fmlookup obj f"
| "NestedFieldNoCopy obj (f # g # fs) =
     (case fmlookup obj f of
        Some (JMap m) \<Rightarrow> NestedFieldNoCopy m (g # fs)
      | _ \<Rightarrow> None)"

definition NestedMap :: "unstructured \<Rightarrow> string list \<Rightarrow> unstructured option" where
  "NestedMap obj path =
     (case NestedFieldNoCopy obj path of Some (JMap m) \<Rightarrow> Some m | _ \<Rightarrow> None)"

definition getNestedString :: "unstructured \<Rightarrow> string list \<Rightarrow> string" where
  "getNestedString obj path =
     (case NestedFieldNoCopy obj path of Some (JString v) \<Rightarrow> v | _ \<Rightarrow> [])"

text \<open>
  \<open>SetNestedField\<close> creates missing inner maps and refuses (leaving the document as it
  is) when an inner value is present and not a map.
\<close>

fun SetNestedField :: "unstructured \<Rightarrow> json \<Rightarrow> string list \<Rightarrow> unstructured" where
  "SetNestedField obj v [] = obj"
| "SetNestedField obj v [f] = fmupd f v obj"
| "SetNestedField obj v (f # g # fs) =
     (case fmlookup obj f of
        Some (JMap m) \<Rightarrow> fmupd f (JMap (SetNestedField m v (g # fs))) obj
      | Some _ \<Rightarrow> obj
      | None \<Rightarrow> fmupd f (JMap (SetNestedField fmempty v (g # fs))) obj)"

definition SetNestedMap :: "unstructured \<Rightarrow> unstructured \<Rightarrow> string list \<Rightarrow> unstructured" where
  "SetNestedMap obj v path = SetNestedField obj (JMap v) path"

definition GetKind :: "unstructured \<Rightarrow> string" where
  "GetKind obj = getNestedString obj [''kind'']"

definition GetAPIVersion :: "unstructured \<Rightarrow> string" where
  "GetAPIVersion obj = getNestedString obj [''apiVersion'']"

definition GetName :: "unstructured \<Rightarrow> string" where
  "GetName obj = getNestedString obj [''metadata'', ''name'']"

definition GetNamespace :: "unstructured \<Rightarrow> string" where
  "GetNamespace obj = getNestedString obj [''metadata'', ''namespace'']"

definition GetResourceVersion :: "unstructured \<Rightarrow> string" where
  "GetResourceVersion obj = getNestedString obj [''metadata'', ''resourceVersion'']"

definition SetNamespace :: "unstructured \<Rightarrow> string \<Rightarrow> unstructured" where
  "SetNamespace obj ns =
     (if length ns = 0 then RemoveNestedField obj [''metadata'', ''namespace'']
      else SetNestedField obj (JString ns) [''metadata'', ''namespace''])"

definition SetResourceVersion :: "unstructured \<Rightarrow> string \<Rightarrow> unstructured" where
  "SetResourceVersion obj version =
     (if length version = 0 then RemoveNestedField obj [''metadata'', ''resourceVersion'']
      else SetNestedField obj (JString version) [''metadata'', ''resourceVersion''])"

section \<open>Sanitization, deny-list and priority (cmd/worker_backup.go)\<close>

definition sanitizeObject :: "unstructured \<Rightarrow> unstructured" where
  "sanitizeObject obj =
     (let obj = RemoveNestedField obj [''status''];
          obj =
            (case NestedMap obj [''metadata''] of
               Some metadata \<Rightarrow>
                 (let metadata = fmdrop ''uid'' metadata;
                      metadata = fmdrop ''resourceVersion'' metadata;
                      metadata = fmdrop ''generation'' metadata;
                      metadata = fmdrop ''managedFields'' metadata;
                      metadata = fmdrop ''selfLink'' metadata;
                      metadata = fmdrop ''creationTimestamp'' metadata;
                      metadata =
                        (case fmlookup metadata ''annotations'' of
                           Some (JMap ann) \<Rightarrow>
                             fmupd ''annotations''
                               (JMap (fmdrop ''kubectl.kubernetes.io/last-applied-configuration'' ann))
                               metadata
                         | _ \<Rightarrow> metadata)
                  in SetNestedMap obj metadata [''metadata''])
             | None \<Rightarrow> obj)
      in if GetKind obj = ''Service'' then
           (let obj = RemoveNestedField obj [''spec'', ''clusterIP''];
                obj = RemoveNestedField obj [''spec'', ''clusterIPs''];
                obj = RemoveNestedField obj [''spec'', ''healthCheckNodePort'']
            in obj)
         else obj)"

definition shouldSkipKind :: "string \<Rightarrow> bool" where
  "shouldSkipKind k =
     (k \<in> set [''Event'', ''Lease'', ''ControllerRevision'', ''ReplicaSet'', ''Pod'',
                ''EndpointSlice'', ''Endpoints'', ''Binding''])"

definition resourcePriority :: "unstructured \<Rightarrow> int" where
  "resourcePriority obj =
     (let k = GetKind obj in
      if k = ''Namespace'' then 0
      else if k = ''CustomResourceDefinition'' then 1
      else if k \<in> set [''ClusterRole'', ''ClusterRoleBinding'', ''Role'', ''RoleBinding''] then 2
      else if k = ''ServiceAccount'' then 3
      else if k \<in> set [''PersistentVolume'', ''StorageClass'', ''VolumeSnapshotClass''] then 4
      else if k = ''PersistentVolumeClaim'' then 5
      else if k \<in> set [''ConfigMap'', ''Secret''] then 6
      else if k \<in> set [''Deployment'', ''StatefulSet'', ''DaemonSet'', ''Job'', ''CronJob''] then 7
      else if k \<in> set [''Service'', ''Ingress'', ''Route''] then 8
      else 100)"

text \<open>
  Both engines order their documents with \<open>sort.SliceStable\<close> and the comparison
  \<open>resourcePriority a < resourcePriority b\<close>: the stable sort by the key
  \<open>resourcePriority\<close>. The export engine applies it to the selected objects
  (\<open>exportResources\<close>), the apply engine to the decoded documents (\<open>applyResources\<close>).
\<close>

definition exportResources_order :: "unstructured list \<Rightarrow> unstructured list" where
  "exportResources_order selected = sort_key resourcePriority selected"

definition applyResources_order :: "unstructured list \<Rightarrow> unstructured list" where
  "applyResources_order resources = sort_key resourcePriority resources"

text \<open>
  Three named stages of \<open>sanitizeObject\<close>, used to reason about it: what it does to the
  metadata map, to the spec map of a Service, and to the document around them.
\<close>

definition cleanMetadata :: "unstructured \<Rightarrow> unstructured" where
  "cleanMetadata metadata =
     (let m = fmdrop ''creationTimestamp'' (fmdrop ''selfLink'' (fmdrop ''managedFields''
                (fmdrop ''generation'' (fmdrop ''resourceVersion'' (fmdrop ''uid'' metadata)))))
      in case fmlookup m ''annotations'' of
           Some (JMap ann) \<Rightarrow>
             fmupd ''annotations''
               (JMap (fmdrop ''kubectl.kubernetes.io/last-applied-configuration'' ann)) m
         | _ \<Rightarrow> m)"

definition cleanSpec :: "unstructured \<Rightarrow> unstructured" where
  "cleanSpec sp = fmdrop ''healthCheckNodePort'' (fmdrop ''clusterIPs'' (fmdrop ''clusterIP'' sp))"

definition sanitizeMeta :: "unstructured \<Rightarrow> unstructured" where
  "sanitizeMeta obj =
     (case fmlookup obj ''metadata'' of
        Some (JMap md) \<Rightarrow> fmupd ''metadata'' (JMap (cleanMetadata md)) obj
      | _ \<Rightarrow> obj)"

definition sanitizeSpec :: "unstructured \<Rightarrow> unstructured" where
  "sanitizeSpec obj =
     (if GetKind obj = ''Service'' then
        (case fmlookup obj ''spec'' of
           Some (JMap sp) \<Rightarrow> fmupd ''spec'' (JMap (cleanSpec sp)) obj
         | _ \<Rightarrow> obj)
      else obj)"

section \<open>Restore apply engine (cmd/worker_restore.go)\<close>

text \<open>
  \<open>runRestoreWorker\<close> passes the restore's own namespace as the default namespace when
  the request is a (namespace-scoped) Restore, and the empty string for a ClusterRestore.
\<close>

definition runRestoreWorker_defaultNamespace :: "restoreObject \<Rightarrow> string" where
  "runRestoreWorker_defaultNamespace restore =
     (let defaultNamespace = [] in
      if rkind restore = ''Restore'' then rnamespace restore else defaultNamespace)"

text \<open>
  The target namespace \<open>applyResources\<close> computes for a document whose namespace is not
  empty: three assignments in sequence, the later one overriding the earlier. A nil
  mapping is \<open>None\<close>.
\<close>

definition applyResources_targetNamespace ::
  "unstructured \<Rightarrow> (string, string) fmap option \<Rightarrow> string \<Rightarrow> string" where
  "applyResources_targetNamespace obj mapping defaultNamespace =
     (let targetNamespace = GetNamespace obj;
          targetNamespace =
            (if defaultNamespace \<noteq> [] then defaultNamespace else targetNamespace);
          targetNamespace =
            (case mapping of
               None \<Rightarrow> targetNamespace
             | Some m \<Rightarrow>
                 (case fmlookup m (GetNamespace obj) of
                    Some mapped \<Rightarrow> mapped
                  | None \<Rightarrow> targetNamespace))
      in targetNamespace)"

text \<open>A document of the given kind, namespace and name, for concrete instances.\<close>

definition exampleDocument :: "string \<Rightarrow> string \<Rightarrow> string \<Rightarrow> unstructured" where
  "exampleDocument k ns n =
     fmupd ''apiVersion'' (JString ''v1'')
       (fmupd ''kind'' (JString k)
         (fmupd ''metadata''
            (JMap (fmupd ''namespace'' (JString ns) (fmupd ''name'' (JString n) fmempty)))
            fmempty))"

text \<open>
  The target cluster as \<open>applyResources\<close> reaches it: the REST mapper
  (\<open>mapper.RESTMapping\<close> on the group, kind and version read from the document's
  \<open>apiVersion\<close> and \<open>kind\<close>) and the dynamic client's calls. \<open>'s\<close> is the state of the
  cluster; a read returns its result, a write returns its error (if any) and the new state.
  A resource client is addressed by the mapped resource and, for a namespaced resource,
  the namespace.
\<close>

record restMapping =
  mapResource :: string
  mapNamespaced :: bool

record 's targetClient =
  RESTMapping :: "string \<Rightarrow> string \<Rightarrow> 's \<Rightarrow> error + restMapping"
  namespaceGet :: "string \<Rightarrow> 's \<Rightarrow> error option"
  namespaceCreate :: "string \<Rightarrow> 's \<Rightarrow> error option \<times> 's"
  resourceCreate :: "string \<Rightarrow> string option \<Rightarrow> unstructured \<Rightarrow> 's \<Rightarrow> error option \<times> 's"
  resourceGet :: "string \<Rightarrow> string option \<Rightarrow> string \<Rightarrow> 's \<Rightarrow> error + unstructured"
  resourceUpdate :: "string \<Rightarrow> string option \<Rightarrow> unstructured \<Rightarrow> 's \<Rightarrow> error option \<times> 's"

text \<open>The closure \<open>ensureNamespace\<close> of \<open>applyResources\<close>.\<close>

definition ensureNamespace :: "'s targetClient \<Rightarrow> string \<Rightarrow> 's \<Rightarrow> error option \<times> 's" where
  "ensureNamespace cl ns s =
     (if ns = [] then (None, s)
      else (case namespaceGet cl ns s of
              Some err \<Rightarrow> if IsNotFound err then namespaceCreate cl ns s else (Some err, s)
            | None \<Rightarrow> (None, s)))"

text \<open>
  The second half of the loop body of \<open>applyResources\<close> (from the REST mapping to the
  final error check), for a document \<open>obj\<close> already sanitized and placed in its target
  namespace. The result is the error the loop returns with, or \<open>None\<close> when the loop goes
  on to the next document.
\<close>

definition applyResources_upsert :: "'s targetClient \<Rightarrow> unstructured \<Rightarrow> 's \<Rightarrow> error option \<times> 's" where
  "applyResources_upsert cl obj s =
     (case RESTMapping cl (GetAPIVersion obj) (GetKind obj) s of
        Inl err \<Rightarrow> (None, s)
      | Inr mappingInfo \<Rightarrow>
          (let scope = (if mapNamespaced mappingInfo then Some (GetNamespace obj) else None);
               obj = SetResourceVersion obj []
           in case resourceCreate cl (mapResource mappingInfo) scope obj s of
                (None, s) \<Rightarrow> (None, s)
              | (Some err, s) \<Rightarrow>
                  if IsAlreadyExists err then
                    (case resourceGet cl (mapResource mappingInfo) scope (GetName obj) s of
                       Inl getErr \<Rightarrow> (Some getErr, s)
                     | Inr existing \<Rightarrow>
                         (let obj = SetResourceVersion obj (GetResourceVersion existing)
                          in resourceUpdate cl (mapResource mappingInfo) scope obj s))
                  else (Some err, s)))"

text \<open>
  The whole loop body. The documents come from \<open>decodeYAMLDocuments\<close>, which never yields
  a nil document, so the nil guard of the loop is not a case of the model.
\<close>

definition applyResources_body ::
  "'s targetClient \<Rightarrow> (string, string) fmap option \<Rightarrow> string \<Rightarrow> unstructured \<Rightarrow> 's
     \<Rightarrow> error option \<times> 's" where
  "applyResources_body cl mapping defaultNamespace obj s =
     (if shouldSkipKind (GetKind obj) then (None, s)
      else
        (let obj = sanitizeObject obj in
         if GetNamespace obj \<noteq> [] then
           (let targetNamespace = applyResources_targetNamespace obj mapping defaultNamespace;
                obj = SetNamespace obj targetNamespace
            in case ensureNamespace cl targetNamespace s of
                 (Some err, s) \<Rightarrow> (Some err, s)
               | (None, s) \<Rightarrow> applyResources_upsert cl obj s)
         else applyResources_upsert cl obj s))"

fun applyResources_loop ::
  "'s targetClient \<Rightarrow> (string, string) fmap option \<Rightarrow> string \<Rightarrow> unstructured list \<Rightarrow> 's
     \<Rightarrow> error option \<times> 's" where
  "applyResources_loop cl mapping defaultNamespace [] s = (None, s)"
| "applyResources_loop cl mapping defaultNamespace (obj # rest) s =
     (case applyResources_body cl mapping defaultNamespace obj s of
        (Some err, s) \<Rightarrow> (Some err, s)
      | (None, s) \<Rightarrow> applyResources_loop cl mapping defaultNamespace rest s)"

definition applyResources ::
  "'s targetClient \<Rightarrow> unstructured list \<Rightarrow> (string, string) fmap option \<Rightarrow> string \<Rightarrow> 's
     \<Rightarrow> error option \<times> 's" where
  "applyResources cl resources mapping defaultNamespace s =
     applyResources_loop cl mapping defaultNamespace (applyResources_order resources) s"

text \<open>
  A small target cluster for concrete instances: its state maps an object name to the
  stored object. Creation fails with already-exists for a stored name and otherwise
  stores the object with version token \<open>1\<close>; a replace demands the stored version token;
  the kind \<open>Widget\<close> has no REST mapping. With \<open>getFails\<close> set, every fetch fails.
\<close>

definition exampleCluster :: "bool \<Rightarrow> (string, unstructured) fmap targetClient" where
  "exampleCluster getFails =
     \<lparr>RESTMapping = (\<lambda>apiVersion k s.
        if k = ''Widget'' then Inl (OtherError ''no matches for kind'')
        else Inr \<lparr>mapResource = k, mapNamespaced = True\<rparr>),
      namespaceGet = (\<lambda>ns s. None),
      namespaceCreate = (\<lambda>ns s. (None, s)),
      resourceCreate = (\<lambda>r sc obj s.
        if GetName obj = [] then (Some (OtherError ''name is required''), s)
        else (case fmlookup s (GetName obj) of
                Some _ \<Rightarrow> (Some (AlreadyExists (GetName obj)), s)
              | None \<Rightarrow> (None, fmupd (GetName obj) (SetResourceVersion obj ''1'') s))),
      resourceGet = (\<lambda>r sc n s.
        if getFails then Inl (OtherError ''connection refused'')
        else (case fmlookup s n of Some obj \<Rightarrow> Inr obj | None \<Rightarrow> Inl (NotFound n))),
      resourceUpdate = (\<lambda>r sc obj s.
        (case fmlookup s (GetName obj) of
           Some old \<Rightarrow>
             if GetResourceVersion obj = GetResourceVersion old
             then (None, fmupd (GetName obj) obj s)
             else (Some (OtherError ''conflict''), s)
         | None \<Rightarrow> (Some (NotFound (GetName obj)), s)))\<rparr>"

section \<open>Archive codec (writeTarGz, extractTarGz)\<close>

text \<open>
  The archive file is written and read through \<open>archive/tar\<close> and \<open>compress/gzip\<close> of
  the Go standard library. The model holds a file by what these libraries store in it:
  the sequence of tar members, each a header (name, mode, size) and the bytes written
  for it. The file system maps a path to the file's content; a file that is not a
  gzip-compressed tar stream has the content \<open>None\<close>.

  \<open>writeTarGz\<close> receives a \<open>map[string][]byte\<close> and ranges over it; Go leaves the order of
  the range unspecified. The map is given as the list of its entries in the order the
  range visits them (the keys are distinct).
\<close>

record tarHeader =
  hdrName :: string
  hdrMode :: nat
  hdrSize :: int

type_synonym tarArchive = "(tarHeader \<times> byte list) list"

type_synonym fileSystem = "(string, tarArchive option) fmap"

definition writeTarGz ::
  "string \<Rightarrow> (string \<times> byte list) list \<Rightarrow> fileSystem \<Rightarrow> error option \<times> fileSystem" where
  "writeTarGz path files fs =
     (None,
      fmupd path
        (Some (map (\<lambda>(nm, data).
                (\<lparr>hdrName = nm, hdrMode = 384, hdrSize = int (length data)\<rparr>, data)) files))
        fs)"

text \<open>
  The loop of \<open>extractTarGz\<close> over the members: a member of size zero is passed over;
  otherwise exactly \<open>Size\<close> bytes are read (\<open>io.ReadFull\<close> fails when fewer are there) and
  stored under the member's name.
\<close>

fun extractTarGz_loop ::
  "tarArchive \<Rightarrow> (string, byte list) fmap \<Rightarrow> error + (string, byte list) fmap" where
  "extractTarGz_loop [] files = Inr files"
| "extractTarGz_loop ((head, content) # members) files =
     (if hdrSize head = 0 then extractTarGz_loop members files
      else if int (length content) < hdrSize head then Inl (OtherError ''unexpected EOF'')
      else extractTarGz_loop members
             (fmupd (hdrName head) (take (nat (hdrSize head)) content) files))"

definition extractTarGz :: "string \<Rightarrow> fileSystem \<Rightarrow> error + (string, byte list) fmap" where
  "extractTarGz path fs =
     (case fmlookup fs path of
        None \<Rightarrow> Inl (NotFound path)
      | Some None \<Rightarrow> Inl (OtherError ''gzip: invalid header'')
      | Some (Some members) \<Rightarrow> extractTarGz_loop members fmempty)"

text \<open>Reading a key of a Go map: an absent key reads as the nil (zero-length) slice.\<close>

definition mapIndex :: "(string, byte list) fmap \<Rightarrow> string \<Rightarrow> byte list" where
  "mapIndex files k = (case fmlookup files k of Some v \<Rightarrow> v | None \<Rightarrow> [])"

section \<open>Namespace scope of a backup (resolveNamespaces)\<close>

text \<open>
  \<open>resolveNamespaces\<close> builds a clientset and, when no namespace is explicitly included,
  lists the namespaces of the cluster. The outcome of the construction (its error, if
  any) and of the listing (an error or the names, in the order listed) are the first two
  arguments. \<open>sort.Strings\<close> sorts by the byte-wise lexicographic order of Go strings, which
  is the order of \<open>string\<close> here.
\<close>

definition resolveNamespaces ::
  "error option \<Rightarrow> error + string list \<Rightarrow> backupObject \<Rightarrow> error + string list" where
  "resolveNamespaces newClientsetErr listNamespaces backup =
     (if kind backup = ''Backup'' then Inr [namespace backup]
      else
        (case newClientsetErr of
           Some err \<Rightarrow> Inl err
         | None \<Rightarrow>
             (case
                (case namespaces backup of
                   Some sel \<Rightarrow>
                     if length (Included sel) > 0 then Inr ([] @ Included sel)
                     else listNamespaces
                 | None \<Rightarrow> listNamespaces)
              of
                Inl err \<Rightarrow> Inl err
              | Inr nss \<Rightarrow>
                  (let nss =
                     (case namespaces backup of
                        Some sel \<Rightarrow>
                          if length (Excluded sel) > 0
                          then filter (\<lambda>ns. ns \<notin> set (Excluded sel)) nss
                          else nss
                      | None \<Rightarrow> nss)
                   in Inr (sort nss)))))"

text \<open>A backup object of the given kind, namespace and namespace selector, for concrete instances.\<close>

definition exampleBackupObject ::
  "string \<Rightarrow> string \<Rightarrow> NamespaceSelector option \<Rightarrow> backupObject" where
  "exampleBackupObject k ns sel =
     \<lparr>kind = k, name = ''nightly'', namespace = ns,
      spec = \<lparr>StorageRef = None, Timeout = None\<rparr>,
      namespaces = sel, includeClusterResources = True,
      status = \<lparr>Phase = BackupPhaseRunning, Conditions = [], StartedAt = None,
                 CompletedAt = None, ArtifactLocation = [], ObservedGeneration = 0,
                 Message = []\<rparr>\<rparr>"

section \<open>Job dispatcher (controllers)\<close>

text \<open>
  The request objects as the reconcilers read them. A ClusterBackup and a ClusterRestore
  have no namespace; their status embeds the common status inline.
\<close>

record Backup =
  bName :: string
  bNamespace :: string
  bUID :: string
  bGeneration :: int64
  bDeletionTimestamp :: "Time option"
  bSpec :: BackupSpec
  bStatus :: BackupStatus

record ClusterBackup =
  cbName :: string
  cbUID :: string
  cbGeneration :: int64
  cbDeletionTimestamp :: "Time option"
  cbSpec :: BackupSpec
  cbNamespaces :: "NamespaceSelector option"
  cbIncludeClusterResources :: "bool option"
  cbStatus :: BackupStatus

record ClusterRestore =
  crName :: string
  crUID :: string
  crGeneration :: int64
  crDeletionTimestamp :: "Time option"
  crSpec :: RestoreSpec
  crStatus :: RestoreStatus

text \<open>
  Of a worker job found by \<open>findJob\<close> the reconcilers read the two terminal counters of
  its status (\<open>int32\<close>, compared with zero only). Of the job they build, the model keeps
  the owner labels, the container arguments, the NFS volume, the deadline, the backoff
  limit and the time to live.
\<close>

record Job =
  jobSucceeded :: int
  jobFailed :: int

record JobSpec =
  jsLabels :: "(string \<times> string) list"
  jsContainer :: string
  jsArgs :: "string list"
  jsNFSVolume :: "NFSLocationSpec option"
  jsActiveDeadlineSeconds :: "int option"
  jsBackoffLimit :: int
  jsTTLSecondsAfterFinished :: int

definition buildOwnerLabels :: "string \<Rightarrow> string \<Rightarrow> string \<Rightarrow> string \<Rightarrow> (string \<times> string) list" where
  "buildOwnerLabels k n ns uid =
     [(''backup.example.com/owner-uid'', uid),
      (''backup.example.com/owner-kind'', k),
      (''backup.example.com/owner-name'', n)]
     @ (if ns \<noteq> [] then [(''backup.example.com/owner-namespace'', ns)] else [])"

definition buildJob ::
  "string \<Rightarrow> string \<Rightarrow> string \<Rightarrow> string \<Rightarrow> string \<Rightarrow> BackupStorageLocation \<Rightarrow> error + JobSpec" where
  "buildJob mode ownerKind ownerName ownerNamespace ownerUID storage =
     (let job = \<lparr>jsLabels = buildOwnerLabels ownerKind ownerName ownerNamespace ownerUID,
                 jsContainer = mode,
                 jsArgs = [''--mode='' @ mode, ''--worker-kind='' @ ownerKind,
                           ''--worker-name='' @ ownerName,
                           ''--worker-namespace='' @ ownerNamespace],
                 jsNFSVolume = None, jsActiveDeadlineSeconds = None,
                 jsBackoffLimit = 0, jsTTLSecondsAfterFinished = 3600\<rparr>
      in if Type (locSpec storage) = StorageLocationNFS then
           (case NFS (locSpec storage) of
              None \<Rightarrow> Inl (OtherError ''nfs storage location missing server/path'')
            | Some nfs \<Rightarrow>
                if nfsServer nfs = [] \<or> nfsPath nfs = []
                then Inl (OtherError ''nfs storage location missing server/path'')
                else Inr (job\<lparr>jsNFSVolume := Some nfs\<rparr>))
         else Inr job)"

definition buildBackupJob ::
  "string \<Rightarrow> string \<Rightarrow> string \<Rightarrow> string \<Rightarrow> BackupStorageLocation \<Rightarrow> error + JobSpec" where
  "buildBackupJob = buildJob ''backup-worker''"

definition buildRestoreJob ::
  "string \<Rightarrow> string \<Rightarrow> string \<Rightarrow> string \<Rightarrow> BackupStorageLocation \<Rightarrow> error + JobSpec" where
  "buildRestoreJob = buildJob ''restore-worker''"

definition withTimeout :: "int option \<Rightarrow> JobSpec \<Rightarrow> JobSpec" where
  "withTimeout timeout job =
     (case timeout of
        Some seconds \<Rightarrow>
          if seconds > 0 then job\<lparr>jsActiveDeadlineSeconds := Some seconds\<rparr> else job
      | None \<Rightarrow> job)"

text \<open>
  What one reconcile meets outside the request object: the result of \<open>findJob\<close>, the
  registry of storage locations, the outcome of creating the job, the outcome of writing
  a status (\<open>r.Status().Update\<close>) and the clock. \<open>'st\<close> is the status type.
\<close>

record 'st reconcileEnv =
  envFindJob :: "error + Job option"
  envStore :: storeClient
  envCreateJob :: "JobSpec \<Rightarrow> error option"
  envStatusUpdate :: "'st \<Rightarrow> error option"
  envNow :: Time

text \<open>
  A reconcile returns \<open>ctrl.Result\<close> (here the requeue delay in seconds, zero for none)
  and an error; its effect on the request is the list of statuses it wrote to the
  resource store, in order. \<open>client.IgnoreNotFound\<close> drops a not-found error.
\<close>

type_synonym 'st reconcileResult = "(nat \<times> error option) \<times> 'st list"

definition IgnoreNotFound :: "error \<Rightarrow> error option" where
  "IgnoreNotFound err = (if IsNotFound err then None else Some err)"

definition writeStatus :: "'st reconcileEnv \<Rightarrow> 'st list \<Rightarrow> 'st \<Rightarrow> 'st reconcileResult" where
  "writeStatus env written st =
     (case envStatusUpdate env st of
        Some err \<Rightarrow> ((0, Some err), written)
      | None \<Rightarrow> ((0, None), written @ [st]))"

definition failBackup ::
  "BackupStatus reconcileEnv \<Rightarrow> BackupStatus list \<Rightarrow> BackupStatus \<Rightarrow> int64 \<Rightarrow> string
     \<Rightarrow> BackupStatus reconcileResult" where
  "failBackup env written st generation message =
     writeStatus env written
       (st\<lparr>Phase := BackupPhaseFailed, Message := message, CompletedAt := Some (envNow env),
           ObservedGeneration := generation\<rparr>)"

text \<open>
  The part common to \<open>BackupReconciler.Reconcile\<close> and \<open>ClusterBackupReconciler.Reconcile\<close>
  after the request is fetched and found not to be deleted: the two functions differ in
  the kind and namespace they pass on only.
\<close>

definition reconcileBackupStatus ::
  "BackupStatus reconcileEnv \<Rightarrow> string \<Rightarrow> string \<Rightarrow> string \<Rightarrow> string \<Rightarrow> int64 \<Rightarrow> BackupSpec
     \<Rightarrow> BackupStatus \<Rightarrow> BackupStatus reconcileResult" where
  "reconcileBackupStatus env k n ns uid generation sp st =
     (case envFindJob env of
        Inl err \<Rightarrow> ((0, Some err), [])
      | Inr None \<Rightarrow>
          (let storageName = (case StorageRef sp of Some ref \<Rightarrow> ref | None \<Rightarrow> [])
           in case StorageLocation (envStore env) storageName of
                Inl err \<Rightarrow>
                  failBackup env [] st generation (''storage location error: '' @ Error_msg err)
              | Inr storage \<Rightarrow>
                  (case buildBackupJob k n ns uid storage of
                     Inl err \<Rightarrow> failBackup env [] st generation (Error_msg err)
                   | Inr job \<Rightarrow>
                       (case envCreateJob env (withTimeout (Timeout sp) job) of
                          Some err \<Rightarrow> ((0, Some err), [])
                        | None \<Rightarrow>
                            writeStatus env []
                              (st\<lparr>Phase := BackupPhaseRunning, StartedAt := Some (envNow env),
                                  ObservedGeneration := generation\<rparr>))))
      | Inr (Some job) \<Rightarrow>
          (case
             (if jobSucceeded job > 0 \<and> Phase st \<noteq> BackupPhaseCompleted then
                (let st = st\<lparr>Phase := BackupPhaseCompleted, ObservedGeneration := generation\<rparr>
                 in case envStatusUpdate env st of
                      Some err \<Rightarrow> Inl err
                    | None \<Rightarrow> Inr (st, [st]))
              else Inr (st, []))
           of
             Inl err \<Rightarrow> ((0, Some err), [])
           | Inr (st, written) \<Rightarrow>
               if jobFailed job > 0 \<and> Phase st \<noteq> BackupPhaseFailed
               then failBackup env written st generation ''backup job failed''
               else ((0, None), written)))"

definition BackupReconciler_Reconcile ::
  "BackupStatus reconcileEnv \<Rightarrow> error + Backup \<Rightarrow> BackupStatus reconcileResult" where
  "BackupReconciler_Reconcile env got =
     (case got of
        Inl err \<Rightarrow> ((0, IgnoreNotFound err), [])
      | Inr backup \<Rightarrow>
          if bDeletionTimestamp backup \<noteq> None then ((0, None), [])
          else reconcileBackupStatus env ''Backup'' (bName backup) (bNamespace backup)
                 (bUID backup) (bGeneration backup) (bSpec backup) (bStatus backup))"

definition ClusterBackupReconciler_Reconcile ::
  "BackupStatus reconcileEnv \<Rightarrow> error + ClusterBackup \<Rightarrow> BackupStatus reconcileResult" where
  "ClusterBackupReconciler_Reconcile env got =
     (case got of
        Inl err \<Rightarrow> ((0, IgnoreNotFound err), [])
      | Inr backup \<Rightarrow>
          if cbDeletionTimestamp backup \<noteq> None then ((0, None), [])
          else reconcileBackupStatus env ''ClusterBackup'' (cbName backup) []
                 (cbUID backup) (cbGeneration backup) (cbSpec backup) (cbStatus backup))"

text \<open>
  \<open>ClusterRestoreReconciler.getBackupForRestore\<close> fetches the source backup named by the
  restore. A ClusterBackup is converted to a Backup holding its name, spec and status.
  The two reads against the resource store are the record \<open>sourceLookup\<close>.
\<close>

record sourceLookup =
  getBackup :: "string \<Rightarrow> string \<Rightarrow> error + Backup"
  getClusterBackup :: "string \<Rightarrow> error + ClusterBackup"

definition getBackupForRestore :: "sourceLookup \<Rightarrow> ClusterRestore \<Rightarrow> error + Backup" where
  "getBackupForRestore c restore =
     (let ref = SourceRef (crSpec restore) in
      if srcKind ref = ''Backup'' then
        (if srcNamespace ref = [] then
           Inl (OtherError ''sourceRef.namespace is required for Backup'')
         else (case getBackup c (srcNamespace ref) (srcName ref) of
                 Inl err \<Rightarrow> Inl err
               | Inr backup \<Rightarrow> Inr backup))
      else if srcKind ref = ''ClusterBackup'' then
        (case getClusterBackup c (srcName ref) of
           Inl err \<Rightarrow> Inl err
         | Inr clusterBackup \<Rightarrow>
             Inr \<lparr>bName = cbName clusterBackup, bNamespace = [], bUID = [], bGeneration = 0,
                  bDeletionTimestamp = None, bSpec = cbSpec clusterBackup,
                  bStatus = cbStatus clusterBackup\<rparr>)
      else Inl (OtherError (''unsupported sourceRef.kind '' @ srcKind ref)))"

definition failClusterRestore ::
  "RestoreStatus reconcileEnv \<Rightarrow> RestoreStatus list \<Rightarrow> RestoreStatus \<Rightarrow> int64 \<Rightarrow> string
     \<Rightarrow> RestoreStatus reconcileResult" where
  "failClusterRestore env written st generation message =
     writeStatus env written
       (st\<lparr>rPhase := RestorePhaseFailed, rMessage := message,
           rCompletedAt := Some (envNow env), rObservedGeneration := generation\<rparr>)"

definition ClusterRestoreReconciler_Reconcile ::
  "RestoreStatus reconcileEnv \<Rightarrow> sourceLookup \<Rightarrow> error + ClusterRestore
     \<Rightarrow> RestoreStatus reconcileResult" where
  "ClusterRestoreReconciler_Reconcile env c got =
     (case got of
        Inl err \<Rightarrow> ((0, IgnoreNotFound err), [])
      | Inr restore \<Rightarrow>
          if crDeletionTimestamp restore \<noteq> None then ((0, None), [])
          else
            (case envFindJob env of
               Inl err \<Rightarrow> ((0, Some err), [])
             | Inr found \<Rightarrow>
                 (case getBackupForRestore c restore of
                    Inl err \<Rightarrow>
                      failClusterRestore env [] (crStatus restore) (crGeneration restore)
                        (Error_msg err)
                  | Inr sourceBackup \<Rightarrow>
                      if ArtifactLocation (bStatus sourceBackup) = [] then ((10, None), [])
                      else
                        (case found of
                           None \<Rightarrow>
                             (let storageName =
                                (case StorageRef (bSpec sourceBackup) of
                                   Some ref \<Rightarrow> ref | None \<Rightarrow> [])
                              in case StorageLocation (envStore env) storageName of
                                   Inl err \<Rightarrow>
                                     failClusterRestore env [] (crStatus restore)
                                       (crGeneration restore)
                                       (''storage location error: '' @ Error_msg err)
                                 | Inr storage \<Rightarrow>
                                     (case buildRestoreJob ''ClusterRestore'' (crName restore) []
                                             (crUID restore) storage of
                                        Inl err \<Rightarrow>
                                          failClusterRestore env [] (crStatus restore)
                                            (crGeneration restore) (Error_msg err)
                                      | Inr job \<Rightarrow>
                                          (case envCreateJob env
                                                  (withTimeout (rTimeout (crSpec restore)) job) of
                                             Some err \<Rightarrow> ((0, Some err), [])
                                           | None \<Rightarrow>
                                               writeStatus env []
                                                 ((crStatus restore)
                                                    \<lparr>rPhase := RestorePhaseRunning,
                                                     rStartedAt := Some (envNow env),
                                                     rObservedGeneration :=
                                                       crGeneration restore\<rparr>))))
                         | Some job \<Rightarrow>
                             (case
                                (if jobSucceeded job > 0
                                    \<and> rPhase (crStatus restore) \<noteq> RestorePhaseCompleted then
                                   (let st = (crStatus restore)
                                          \<lparr>rPhase := RestorePhaseCompleted,
                                           rObservedGeneration := crGeneration restore\<rparr>
                                    in case envStatusUpdate env st of
                                         Some err \<Rightarrow> Inl err
                                       | None \<Rightarrow> Inr (st, [st]))
                                 else Inr (crStatus restore, []))
                              of
                                Inl err \<Rightarrow> ((0, Some err), [])
                              | Inr (st, written) \<Rightarrow>
                                  if jobFailed job > 0 \<and> rPhase st \<noteq> RestorePhaseFailed
                                  then failClusterRestore env written st (crGeneration restore)
                                         ''restore job failed''
                                  else ((0, None), written))))))"

section \<open>Workers (cmd/worker_backup.go, cmd/worker_restore.go, cmd/worker_storage.go)\<close>

text \<open>
  \<open>storeArtifact\<close> and what it reaches outside the worker: the cluster identity, the
  library functions \<open>path.Join\<close> and \<open>strings.ToLower\<close>, the loading of the S3 settings
  from the location and its credential secret, the upload, and the copy onto the mounted
  export.
\<close>

record s3Config =
  cfgBucket :: string
  cfgPrefix :: string

record storageEnv =
  seClusterID :: string
  sePathJoin :: "string list \<Rightarrow> string"
  seToLower :: "string \<Rightarrow> string"
  seLoadS3Secret :: "S3LocationSpec \<Rightarrow> error + s3Config"
  seUploadToS3 :: "s3Config \<Rightarrow> string \<Rightarrow> string \<Rightarrow> error option"
  seCopyToNFS :: "string \<Rightarrow> string \<Rightarrow> error option"

definition artifactFileName :: string where
  "artifactFileName = ''backup.tar.gz''"

definition namespaceSegment :: "string \<Rightarrow> string" where
  "namespaceSegment ns = (if ns = [] then ''cluster'' else ns)"

definition loadS3Config :: "storageEnv \<Rightarrow> BackupStorageLocation \<Rightarrow> error + s3Config" where
  "loadS3Config se storage =
     (case S3 (locSpec storage) of
        None \<Rightarrow> Inl (OtherError ''s3 configuration is missing'')
      | Some s3 \<Rightarrow> seLoadS3Secret se s3)"

definition storeToNFS ::
  "storageEnv \<Rightarrow> BackupStorageLocation \<Rightarrow> string \<Rightarrow> string \<Rightarrow> error + string" where
  "storeToNFS se storage relativeBase artifactPath =
     (case NFS (locSpec storage) of
        None \<Rightarrow> Inl (OtherError ''nfs configuration is missing'')
      | Some nfs \<Rightarrow>
          (case seCopyToNFS se relativeBase artifactPath of
             Some err \<Rightarrow> Inl err
           | None \<Rightarrow> Inr (sePathJoin se [nfsPath nfs, relativeBase, artifactFileName])))"

definition storeArtifact ::
  "storageEnv \<Rightarrow> BackupStorageLocation \<Rightarrow> string \<Rightarrow> backupObject \<Rightarrow> string \<Rightarrow> error + string" where
  "storeArtifact se storage artifactPath backup timestamp =
     (let relativeBase =
            sePathJoin se [seClusterID se, seToLower se (kind backup),
                           namespaceSegment (namespace backup), name backup, timestamp]
      in case Type (locSpec storage) of
           StorageLocationS3 \<Rightarrow>
             (case loadS3Config se storage of
                Inl err \<Rightarrow> Inl err
              | Inr cfg \<Rightarrow>
                  (let key = sePathJoin se [cfgPrefix cfg, relativeBase, artifactFileName]
                   in case seUploadToS3 se cfg key artifactPath of
                        Some err \<Rightarrow> Inl err
                      | None \<Rightarrow> Inr (''s3://'' @ cfgBucket cfg @ ''/'' @ key)))
         | StorageLocationNFS \<Rightarrow>
             (case storeToNFS se storage relativeBase artifactPath of
                Inl err \<Rightarrow> Inl err
              | Inr nfsPath' \<Rightarrow>
                  Inr (''nfs://''
                       @ (case NFS (locSpec storage) of Some nfs \<Rightarrow> nfsServer nfs | None \<Rightarrow> [])
                       @ nfsPath'))
         | StorageLocationOther t \<Rightarrow> Inl (OtherError (''unsupported storage type '' @ t)))"

text \<open>
  What \<open>runBackupWorker\<close> meets: the loading of the request, the registry of storage
  locations, the temporary directory, the outcomes of the export engine, of the snapshot
  orchestrator and of the metadata encoding, the file system, the storage back end, the
  outcome of writing a status, the clock read at the start (with its rendering as a
  timestamp) and the clock read when a failure status is built.
\<close>

record backupWorkerEnv =
  wLoadBackupObject :: "error + backupObject"
  wStore :: storeClient
  wMkdirTemp :: "error + string"
  wExportResources :: "error + byte list"
  wExportSnapshots :: "error + byte list"
  wBuildBackupMetadata :: "error + byte list"
  wFileSystem :: fileSystem
  wStorage :: storageEnv
  wUpdateStatus :: "BackupStatus \<Rightarrow> error option"
  wNow :: Time
  wTimestamp :: string
  wFailNow :: Time

text \<open>
  A worker returns an error or nil; its effect on the request is the list of statuses it
  wrote (at most one).
\<close>

definition updateStatus ::
  "('st \<Rightarrow> error option) \<Rightarrow> 'st \<Rightarrow> error option \<times> 'st list" where
  "updateStatus upd st = (case upd st of Some err \<Rightarrow> (Some err, []) | None \<Rightarrow> (None, [st]))"

definition runBackupWorker :: "backupWorkerEnv \<Rightarrow> error option \<times> BackupStatus list" where
  "runBackupWorker env =
     (case wLoadBackupObject env of
        Inl err \<Rightarrow> (Some err, [])
      | Inr backup \<Rightarrow>
          (let failed = (\<lambda>err. updateStatus (wUpdateStatus env)
                           (failedBackupStatus (status backup) backup (Error_msg err)
                              (wFailNow env)));
               storageName = (case StorageRef (spec backup) of Some ref \<Rightarrow> ref | None \<Rightarrow> [])
           in case StorageLocation (wStore env) storageName of
                Inl err \<Rightarrow> failed err
              | Inr storage \<Rightarrow>
          (case wMkdirTemp env of
             Inl err \<Rightarrow> (Some err, [])
           | Inr workDir \<Rightarrow>
          (case wExportResources env of
             Inl err \<Rightarrow> failed err
           | Inr resourcesBytes \<Rightarrow>
          (case wExportSnapshots env of
             Inl err \<Rightarrow> failed err
           | Inr snapshotsBytes \<Rightarrow>
          (case wBuildBackupMetadata env of
             Inl err \<Rightarrow> failed err
           | Inr metadataBytes \<Rightarrow>
          (let artifactPath = workDir @ ''/'' @ artifactFileName;
               files = [(''metadata.json'', metadataBytes),
                        (''resources.yaml'', resourcesBytes),
                        (''snapshots.yaml'', snapshotsBytes)]
           in case writeTarGz artifactPath files (wFileSystem env) of
                (Some err, fs) \<Rightarrow> failed err
              | (None, fs) \<Rightarrow>
          (case storeArtifact (wStorage env) storage artifactPath backup (wTimestamp env) of
             Inl err \<Rightarrow> failed err
           | Inr location \<Rightarrow>
               updateStatus (wUpdateStatus env)
                 ((status backup)
                    \<lparr>Phase := BackupPhaseCompleted,
                     CompletedAt := Some (wNow env),
                     ArtifactLocation := location,
                     Message := ''backup completed'',
                     ObservedGeneration := ObservedGeneration (status backup)\<rparr>)))))))))"

text \<open>
  \<open>loadBackupReference\<close> fetches the backup a restore names, as a \<open>backupRef\<close>.
\<close>

record backupRef =
  refName :: string
  refNamespace :: string
  refSpec :: BackupSpec
  refStatus :: BackupStatus

definition loadBackupReference :: "sourceLookup \<Rightarrow> RestoreSourceRef \<Rightarrow> error + backupRef" where
  "loadBackupReference c ref =
     (if srcKind ref = ''Backup'' then
        (case getBackup c (srcNamespace ref) (srcName ref) of
           Inl err \<Rightarrow> Inl err
         | Inr backup \<Rightarrow>
             Inr \<lparr>refName = bName backup, refNamespace = bNamespace backup,
                  refSpec = bSpec backup, refStatus = bStatus backup\<rparr>)
      else if srcKind ref = ''ClusterBackup'' then
        (case getClusterBackup c (srcName ref) of
           Inl err \<Rightarrow> Inl err
         | Inr backup \<Rightarrow>
             Inr \<lparr>refName = cbName backup, refNamespace = [],
                  refSpec = cbSpec backup, refStatus = cbStatus backup\<rparr>)
      else Inl (OtherError (''unsupported sourceRef.kind '' @ srcKind ref)))"

text \<open>
  What \<open>runRestoreWorker\<close> meets: the loading of the request, the reads of the source
  backup, the registry of storage locations, the temporary directory, the download of
  the artifact into the file system, the YAML decoder, the connection settings of a
  remote cluster, the construction of the clients for the chosen cluster (\<open>None\<close> is the
  local one) with the state of that cluster, the outcome of writing a status, and the
  clock read when the completed, respectively the failure status is built.
\<close>

record 's restoreWorkerEnv =
  rwLoadRestoreObject :: "error + restoreObject"
  rwSource :: sourceLookup
  rwStore :: storeClient
  rwMkdirTemp :: "error + string"
  rwLoadArtifact ::
    "BackupStorageLocation \<Rightarrow> string \<Rightarrow> string \<Rightarrow> fileSystem \<Rightarrow> error option \<times> fileSystem"
  rwFileSystem :: fileSystem
  rwDecodeYAMLDocuments :: "byte list \<Rightarrow> error + unstructured list"
  rwBuildRemoteConfig :: "string \<Rightarrow> error option"
  rwConnect :: "string option \<Rightarrow> error + 's targetClient"
  rwCluster :: 's
  rwUpdate :: "RestoreStatus \<Rightarrow> error option"
  rwNow :: Time
  rwFailNow :: Time

definition runRestoreWorker ::
  "'s restoreWorkerEnv \<Rightarrow> (error option \<times> RestoreStatus list) \<times> 's" where
  "runRestoreWorker env =
     (case rwLoadRestoreObject env of
        Inl err \<Rightarrow> ((Some err, []), rwCluster env)
      | Inr restore \<Rightarrow>
          (let failed = (\<lambda>message s.
                  (updateStatus (rwUpdate env)
                     (failedRestoreStatus (rstatus restore) message (rwFailNow env)), s))
           in case loadBackupReference (rwSource env) (SourceRef (rspec restore)) of
                Inl err \<Rightarrow> failed (Error_msg err) (rwCluster env)
              | Inr source \<Rightarrow>
          if ArtifactLocation (refStatus source) = [] then
            failed ''artifact location missing on source backup'' (rwCluster env)
          else
          (let storageName = (case StorageRef (refSpec source) of Some ref \<Rightarrow> ref | None \<Rightarrow> [])
           in case StorageLocation (rwStore env) storageName of
                Inl err \<Rightarrow> failed (Error_msg err) (rwCluster env)
              | Inr storage \<Rightarrow>
          (case rwMkdirTemp env of
             Inl err \<Rightarrow> ((Some err, []), rwCluster env)
           | Inr workDir \<Rightarrow>
          (let artifactPath = workDir @ ''/'' @ artifactFileName
           in case rwLoadArtifact env storage (ArtifactLocation (refStatus source)) artifactPath
                     (rwFileSystem env) of
                (Some err, fs) \<Rightarrow> failed (Error_msg err) (rwCluster env)
              | (None, fs) \<Rightarrow>
          (case extractTarGz artifactPath fs of
             Inl err \<Rightarrow> failed (Error_msg err) (rwCluster env)
           | Inr files \<Rightarrow>
          (case rwDecodeYAMLDocuments env (mapIndex files ''resources.yaml'') of
             Inl err \<Rightarrow> failed (Error_msg err) (rwCluster env)
           | Inr resourceObjects \<Rightarrow>
          (case
             (if length (mapIndex files ''snapshots.yaml'') > 0 then
                (case rwDecodeYAMLDocuments env (mapIndex files ''snapshots.yaml'') of
                   Inl err \<Rightarrow> Inl err
                 | Inr snapshotObjects \<Rightarrow> Inr (resourceObjects @ snapshotObjects))
              else Inr resourceObjects)
           of
             Inl err \<Rightarrow> failed (Error_msg err) (rwCluster env)
           | Inr resourceObjects \<Rightarrow>
          (case
             (case TargetClusterRef (rspec restore) of
                Some remote \<Rightarrow>
                  (case rwBuildRemoteConfig env remote of
                     Some err \<Rightarrow> Inl err
                   | None \<Rightarrow> Inr (Some remote))
              | None \<Rightarrow> Inr None)
           of
             Inl err \<Rightarrow> failed (Error_msg err) (rwCluster env)
           | Inr targetCfg \<Rightarrow>
          (let defaultNamespace = runRestoreWorker_defaultNamespace restore
           in case rwConnect env targetCfg of
                Inl err \<Rightarrow> failed (Error_msg err) (rwCluster env)
              | Inr cl \<Rightarrow>
          (case applyResources cl resourceObjects (NamespaceMapping (rspec restore))
                  defaultNamespace (rwCluster env) of
             (Some err, s) \<Rightarrow> failed (Error_msg err) s
           | (None, s) \<Rightarrow>
               (updateStatus (rwUpdate env)
                  ((rstatus restore)
                     \<lparr>rPhase := RestorePhaseCompleted,
                      rCompletedAt := Some (rwNow env),
                      rMessage := ''restore completed'',
                      rObservedGeneration := rObservedGeneration (rstatus restore)\<rparr>),
                s))))))))))))"

text \<open>Requests, jobs and surroundings for concrete instances.\<close>

definition exampleReconcileEnv :: "Job option \<Rightarrow> 'st reconcileEnv" where
  "exampleReconcileEnv found =
     \<lparr>envFindJob = Inr found,
      envStore = \<lparr>getLocation = (\<lambda>n. Inl (NotFound n)),
                  listLocations = Inr [exampleLocation ''primary-nfs'' False]\<rparr>,
      envCreateJob = (\<lambda>job. None),
      envStatusUpdate = (\<lambda>st. None),
      envNow = 100\<rparr>"

definition exampleBackupStatus :: "BackupPhase \<Rightarrow> string \<Rightarrow> string \<Rightarrow> BackupStatus" where
  "exampleBackupStatus ph loc msg =
     \<lparr>Phase = ph, Conditions = [], StartedAt = Some 10, CompletedAt = Some 20,
      ArtifactLocation = loc, ObservedGeneration = 1, Message = msg\<rparr>"

definition exampleRestoreStatus :: "RestorePhase \<Rightarrow> string \<Rightarrow> RestoreStatus" where
  "exampleRestoreStatus ph msg =
     \<lparr>rPhase = ph, rConditions = [], rStartedAt = Some 10, rCompletedAt = Some 20,
      rObservedGeneration = 1, rMessage = msg\<rparr>"

definition exampleBackup :: "BackupStatus \<Rightarrow> Backup" where
  "exampleBackup st =
     \<lparr>bName = ''nightly'', bNamespace = ''app1'', bUID = ''uid-1'', bGeneration = 1,
      bDeletionTimestamp = None, bSpec = \<lparr>StorageRef = None, Timeout = None\<rparr>,
      bStatus = st\<rparr>"

definition exampleClusterBackup :: "BackupStatus \<Rightarrow> ClusterBackup" where
  "exampleClusterBackup st =
     \<lparr>cbName = ''full'', cbUID = ''uid-2'', cbGeneration = 1,
      cbDeletionTimestamp = None, cbSpec = \<lparr>StorageRef = None, Timeout = None\<rparr>,
      cbNamespaces = None, cbIncludeClusterResources = None, cbStatus = st\<rparr>"

definition exampleClusterRestore :: "RestoreStatus \<Rightarrow> ClusterRestore" where
  "exampleClusterRestore st =
     \<lparr>crName = ''full-restore'', crUID = ''uid-3'', crGeneration = 1,
      crDeletionTimestamp = None,
      crSpec = \<lparr>SourceRef = \<lparr>srcKind = ''ClusterBackup'', srcName = ''full'', srcNamespace = []\<rparr>,
                 TargetClusterRef = None, NamespaceMapping = None, rTimeout = None\<rparr>,
      crStatus = st\<rparr>"

definition exampleSourceLookup :: sourceLookup where
  "exampleSourceLookup =
     \<lparr>getBackup = (\<lambda>ns n. Inl (NotFound n)),
      getClusterBackup = (\<lambda>n.
        if n = ''full'' then
          Inr (exampleClusterBackup
                 (exampleBackupStatus BackupPhaseCompleted
                    ''nfs://10.0.0.10/exports/backups/c/clusterbackup/cluster/full/t/backup.tar.gz''
                    ''backup completed''))
        else Inl (NotFound n))\<rparr>"

text \<open>
  Surroundings of a backup worker in which every step succeeds against an NFS location,
  and of a restore worker whose source backup is not found. The stand-ins for
  \<open>path.Join\<close> and \<open>strings.ToLower\<close> cover the strings that occur.
\<close>

definition exampleStorageEnv :: storageEnv where
  "exampleStorageEnv =
     \<lparr>seClusterID = ''cluster-a'',
      sePathJoin = (\<lambda>xs. foldr (\<lambda>a b. if b = [] then a else a @ ''/'' @ b) xs []),
      seToLower = (\<lambda>k. if k = ''Backup'' then ''backup''
                         else if k = ''ClusterBackup'' then ''clusterbackup'' else k),
      seLoadS3Secret = (\<lambda>s3. Inl (OtherError ''no credentials'')),
      seUploadToS3 = (\<lambda>cfg key p. Some (OtherError ''no route to host'')),
      seCopyToNFS = (\<lambda>relativeBase p. None)\<rparr>"

definition exampleBackupWorkerEnv :: "BackupStatus \<Rightarrow> error + byte list \<Rightarrow> backupWorkerEnv" where
  "exampleBackupWorkerEnv st exported =
     \<lparr>wLoadBackupObject = Inr ((exampleBackupObject ''Backup'' ''app1'' None)\<lparr>status := st\<rparr>),
      wStore = \<lparr>getLocation = (\<lambda>n. Inl (NotFound n)),
                listLocations = Inr [exampleLocation ''primary-nfs'' False]\<rparr>,
      wMkdirTemp = Inr ''/tmp/backup-worker-1'',
      wExportResources = exported,
      wExportSnapshots = Inr [],
      wBuildBackupMetadata = Inr [123, 125],
      wFileSystem = fmempty,
      wStorage = exampleStorageEnv,
      wUpdateStatus = (\<lambda>st. None),
      wNow = 100,
      wTimestamp = ''20260101T000000Z'',
      wFailNow = 101\<rparr>"

definition exampleRestoreWorkerEnv ::
  "RestoreStatus \<Rightarrow> (string, unstructured) fmap restoreWorkerEnv" where
  "exampleRestoreWorkerEnv st =
     \<lparr>rwLoadRestoreObject =
        Inr \<lparr>rkind = ''Restore'', rname = ''app1-restore'', rnamespace = ''app1'',
             rspec = \<lparr>SourceRef = \<lparr>srcKind = ''Backup'', srcName = ''app1-backup'',
                                   srcNamespace = ''app1''\<rparr>,
                      TargetClusterRef = None, NamespaceMapping = None, rTimeout = None\<rparr>,
             rstatus = st\<rparr>,
      rwSource = \<lparr>getBackup = (\<lambda>ns n. Inl (NotFound n)),
                  getClusterBackup = (\<lambda>n. Inl (NotFound n))\<rparr>,
      rwStore = \<lparr>getLocation = (\<lambda>n. Inl (NotFound n)),
                 listLocations = Inr [exampleLocation ''primary-nfs'' False]\<rparr>,
      rwMkdirTemp = Inr ''/tmp/restore-worker-1'',
      rwLoadArtifact = (\<lambda>storage location dest fs. (Some (NotFound location), fs)),
      rwFileSystem = fmempty,
      rwDecodeYAMLDocuments = (\<lambda>bytes. Inr []),
      rwBuildRemoteConfig = (\<lambda>remote. None),
      rwConnect = (\<lambda>cfg. Inr (exampleCluster False)),
      rwCluster = fmempty,
      rwUpdate = (\<lambda>st. None),
      rwNow = 100,
      rwFailNow = 101\<rparr>"

section \<open>Theorems\<close>

subsection \<open>Sanitization\<close>

lemma GetKind_fmdrop: "f \<noteq> ''kind'' \<Longrightarrow> GetKind (fmdrop f obj) = GetKind obj"
  by (simp add: GetKind_def getNestedString_def)

lemma GetKind_fmupd: "f \<noteq> ''kind'' \<Longrightarrow> GetKind (fmupd f v obj) = GetKind obj"
  by (simp add: GetKind_def getNestedString_def)

lemma RemoveNestedField2:
  "RemoveNestedField obj [f, g] =
     (case fmlookup obj f of Some (JMap m) \<Rightarrow> fmupd f (JMap (fmdrop g m)) obj | _ \<Rightarrow> obj)"
  by (simp split: option.splits json.splits)

lemma removeSpec3:
  "RemoveNestedField (RemoveNestedField (RemoveNestedField obj [''spec'', ''clusterIP''])
      [''spec'', ''clusterIPs'']) [''spec'', ''healthCheckNodePort'']
   = (case fmlookup obj ''spec'' of
        Some (JMap sp) \<Rightarrow> fmupd ''spec'' (JMap (cleanSpec sp)) obj
      | _ \<Rightarrow> obj)"
  by (simp add: cleanSpec_def split: option.splits json.splits)

lemma sanitize_metadata_stage:
  "(case NestedMap obj [''metadata''] of
      Some metadata \<Rightarrow>
        (let metadata = fmdrop ''uid'' metadata;
             metadata = fmdrop ''resourceVersion'' metadata;
             metadata = fmdrop ''generation'' metadata;
             metadata = fmdrop ''managedFields'' metadata;
             metadata = fmdrop ''selfLink'' metadata;
             metadata = fmdrop ''creationTimestamp'' metadata;
             metadata =
               (case fmlookup metadata ''annotations'' of
                  Some (JMap ann) \<Rightarrow>
                    fmupd ''annotations''
                      (JMap (fmdrop ''kubectl.kubernetes.io/last-applied-configuration'' ann))
                      metadata
                | _ \<Rightarrow> metadata)
         in SetNestedMap obj metadata [''metadata''])
    | None \<Rightarrow> obj)
   = (case fmlookup obj ''metadata'' of
        Some (JMap md) \<Rightarrow> fmupd ''metadata'' (JMap (cleanMetadata md)) obj
      | _ \<Rightarrow> obj)"
  by (simp add: NestedMap_def SetNestedMap_def cleanMetadata_def Let_def
      split: option.splits json.splits)

lemma sanitize_metadata_stage2:
  "(case NestedMap obj [''metadata''] of
      Some metadata \<Rightarrow> SetNestedMap obj (cleanMetadata metadata) [''metadata'']
    | None \<Rightarrow> obj) = sanitizeMeta obj"
  by (simp add: NestedMap_def SetNestedMap_def sanitizeMeta_def
      split: option.splits json.splits)

lemma sanitizeObject_unfold:
  "sanitizeObject obj =
     (let o1 = fmdrop ''status'' obj;
          o2 = (case NestedMap o1 [''metadata''] of
                  Some metadata \<Rightarrow> SetNestedMap o1 (cleanMetadata metadata) [''metadata'']
                | None \<Rightarrow> o1)
      in if GetKind o2 = ''Service'' then
           RemoveNestedField (RemoveNestedField (RemoveNestedField o2 [''spec'', ''clusterIP''])
             [''spec'', ''clusterIPs'']) [''spec'', ''healthCheckNodePort'']
         else o2)"
  by (simp add: sanitizeObject_def cleanMetadata_def Let_def del: RemoveNestedField.simps(3)
      cong: option.case_cong)

lemma sanitizeObject_stages:
  "sanitizeObject obj = sanitizeSpec (sanitizeMeta (fmdrop ''status'' obj))"
  unfolding sanitizeObject_unfold sanitize_metadata_stage2 removeSpec3 Let_def
  by (simp add: sanitizeSpec_def)

lemma cleanSpec_idem: "cleanSpec (cleanSpec sp) = cleanSpec sp"
  by (simp add: cleanSpec_def fmdrop_comm)

lemma fmlookup_cleanAnnotated:
  "fmlookup (case fmlookup m ''annotations'' of
        Some (JMap ann) \<Rightarrow> fmupd ''annotations'' (JMap (fmdrop a ann)) m
      | _ \<Rightarrow> m) k
   = (if k = ''annotations'' then
        (case fmlookup m ''annotations'' of
           Some (JMap ann) \<Rightarrow> Some (JMap (fmdrop a ann))
         | x \<Rightarrow> x)
      else fmlookup m k)"
  by (simp split: option.splits json.splits)

lemma fmlookup_cleanMetadata:
  "fmlookup (cleanMetadata md) k =
     (if k \<in> {''uid'', ''resourceVersion'', ''generation'', ''managedFields'', ''selfLink'',
               ''creationTimestamp''} then None
      else if k = ''annotations'' then
        (case fmlookup md ''annotations'' of
           Some (JMap ann) \<Rightarrow>
             Some (JMap (fmdrop ''kubectl.kubernetes.io/last-applied-configuration'' ann))
         | x \<Rightarrow> x)
      else fmlookup md k)"
  unfolding cleanMetadata_def Let_def fmlookup_cleanAnnotated
  by simp

lemma cleanMetadata_idem: "cleanMetadata (cleanMetadata md) = cleanMetadata md"
  by (rule fmap_ext) (simp add: fmlookup_cleanMetadata split: option.splits json.splits)

lemma GetKind_sanitizeMeta: "GetKind (sanitizeMeta obj) = GetKind obj"
  by (simp add: sanitizeMeta_def GetKind_fmupd split: option.splits json.splits)

lemma GetKind_sanitizeSpec: "GetKind (sanitizeSpec obj) = GetKind obj"
  by (simp add: sanitizeSpec_def GetKind_fmupd split: option.splits json.splits)

lemma fmlookup_sanitizeMeta:
  "fmlookup (sanitizeMeta obj) k =
     (if k = ''metadata'' then
        (case fmlookup obj ''metadata'' of
           Some (JMap md) \<Rightarrow> Some (JMap (cleanMetadata md))
         | x \<Rightarrow> x)
      else fmlookup obj k)"
  by (simp add: sanitizeMeta_def split: option.splits json.splits)

lemma fmlookup_sanitizeSpec:
  "fmlookup (sanitizeSpec obj) k =
     (if k = ''spec'' \<and> GetKind obj = ''Service'' then
        (case fmlookup obj ''spec'' of
           Some (JMap sp) \<Rightarrow> Some (JMap (cleanSpec sp))
         | x \<Rightarrow> x)
      else fmlookup obj k)"
  by (simp add: sanitizeSpec_def split: option.splits json.splits)

lemma fmlookup_sanitizeObject:
  "fmlookup (sanitizeObject obj) k =
     (if k = ''status'' then None
      else if k = ''metadata'' then
        (case fmlookup obj ''metadata'' of
           Some (JMap md) \<Rightarrow> Some (JMap (cleanMetadata md))
         | x \<Rightarrow> x)
      else if k = ''spec'' \<and> GetKind obj = ''Service'' then
        (case fmlookup obj ''spec'' of
           Some (JMap sp) \<Rightarrow> Some (JMap (cleanSpec sp))
         | x \<Rightarrow> x)
      else fmlookup obj k)"
  by (simp add: sanitizeObject_stages fmlookup_sanitizeSpec fmlookup_sanitizeMeta
      GetKind_sanitizeMeta GetKind_fmdrop)

lemma GetKind_sanitizeObject: "GetKind (sanitizeObject obj) = GetKind obj"
  by (simp add: sanitizeObject_stages GetKind_sanitizeSpec GetKind_sanitizeMeta GetKind_fmdrop)

text \<open>
  C7. Sanitization is idempotent: sanitizing a sanitized document gives the same
  document. The status, the bookkeeping fields of the metadata, the last-applied
  annotation and, for a Service, the cluster IP fields and the health-check node port are
  dropped by the first application and absent at the second.
\<close>

theorem sanitizeObject_idempotent: "sanitizeObject (sanitizeObject obj) = sanitizeObject obj"
proof (rule fmap_ext)
  fix k
  show "fmlookup (sanitizeObject (sanitizeObject obj)) k = fmlookup (sanitizeObject obj) k"
    by (simp add: fmlookup_sanitizeObject [of "sanitizeObject obj"] GetKind_sanitizeObject
        fmlookup_sanitizeObject [of obj] cleanMetadata_idem cleanSpec_idem
        split: option.splits json.splits)
qed


subsection \<open>Storage-location resolution\<close>



subsection \<open>Failure-status constructors\<close>

text \<open>
  C10. \<open>failedBackupStatus\<close> and \<open>failedRestoreStatus\<close> set the phase to Failed, the
  message to the given one and the completion time to the current instant; every other
  field of the status (StartedAt, ArtifactLocation, Conditions, ObservedGeneration)
  keeps the value it had.
\<close>

theorem failedStatus_frame:
  "Phase (failedBackupStatus cur b msg now) = BackupPhaseFailed
   \<and> Message (failedBackupStatus cur b msg now) = msg
   \<and> CompletedAt (failedBackupStatus cur b msg now) = Some now
   \<and> StartedAt (failedBackupStatus cur b msg now) = StartedAt cur
   \<and> ArtifactLocation (failedBackupStatus cur b msg now) = ArtifactLocation cur
   \<and> Conditions (failedBackupStatus cur b msg now) = Conditions cur
   \<and> ObservedGeneration (failedBackupStatus cur b msg now) = ObservedGeneration cur
   \<and> BackupStatus.more (failedBackupStatus cur b msg now) = BackupStatus.more cur
   \<and> rPhase (failedRestoreStatus rcur msg now) = RestorePhaseFailed
   \<and> rMessage (failedRestoreStatus rcur msg now) = msg
   \<and> rCompletedAt (failedRestoreStatus rcur msg now) = Some now
   \<and> rStartedAt (failedRestoreStatus rcur msg now) = rStartedAt rcur
   \<and> rConditions (failedRestoreStatus rcur msg now) = rConditions rcur
   \<and> rObservedGeneration (failedRestoreStatus rcur msg now) = rObservedGeneration rcur
   \<and> RestoreStatus.more (failedRestoreStatus rcur msg now) = RestoreStatus.more rcur"
  by (simp add: failedBackupStatus_def failedRestoreStatus_def Let_def)

subsection \<open>Example documents\<close>

lemma GetKind_exampleDocument: "GetKind (exampleDocument k ns n) = k"
  by (simp add: GetKind_def getNestedString_def exampleDocument_def)

lemma GetNamespace_exampleDocument: "GetNamespace (exampleDocument k ns n) = ns"
  by (simp add: GetNamespace_def getNestedString_def exampleDocument_def)

subsection \<open>Target namespace of a restored document\<close>

text \<open>
  C3, as the spec states it, fails: for a namespace-scoped restore (default namespace
  \<open>app1\<close>) whose remap table maps \<open>src\<close> to \<open>dst\<close>, a document of namespace \<open>src\<close> is
  sent to \<open>dst\<close>, not to the default namespace.
\<close>

theorem targetNamespace_counterexample:
  "runRestoreWorker_defaultNamespace
      \<lparr>rkind = ''Restore'', rname = ''r'', rnamespace = ''app1'',
       rspec = \<lparr>SourceRef = \<lparr>srcKind = ''Backup'', srcName = ''b'', srcNamespace = ''src''\<rparr>,
                TargetClusterRef = None,
                NamespaceMapping = Some (fmupd ''src'' ''dst'' fmempty), rTimeout = None\<rparr>,
       rstatus = \<lparr>rPhase = RestorePhaseRunning, rConditions = [], rStartedAt = None,
                  rCompletedAt = None, rObservedGeneration = 0, rMessage = []\<rparr>\<rparr> = ''app1''
   \<and> applyResources_targetNamespace (exampleDocument ''ConfigMap'' ''src'' ''settings'')
        (Some (fmupd ''src'' ''dst'' fmempty)) ''app1'' = ''dst''
   \<and> applyResources_targetNamespace (exampleDocument ''ConfigMap'' ''src'' ''settings'')
        (Some (fmupd ''src'' ''dst'' fmempty)) ''app1'' \<noteq> ''app1''"
  by (simp add: runRestoreWorker_defaultNamespace_def applyResources_targetNamespace_def
      GetNamespace_exampleDocument)

text \<open>
  C3, amended. The target namespace of a namespaced document is the remap-table entry
  for the document's original namespace when the table has one; otherwise the restore's
  default-namespace override when it is not empty (the restore is namespace-scoped);
  otherwise the original namespace. When both apply, the remap-table entry wins.
\<close>

theorem targetNamespace_precedence:
  "applyResources_targetNamespace obj mapping defaultNamespace =
     (case (case mapping of None \<Rightarrow> None | Some m \<Rightarrow> fmlookup m (GetNamespace obj)) of
        Some mapped \<Rightarrow> mapped
      | None \<Rightarrow> if defaultNamespace \<noteq> [] then defaultNamespace else GetNamespace obj)"
  by (simp add: applyResources_targetNamespace_def split: option.splits)

subsection \<open>Priority ordering\<close>

lemma resourcePriority_kinds:
  "GetKind d = ''Namespace'' \<Longrightarrow> resourcePriority d = 0"
  "GetKind d = ''ConfigMap'' \<Longrightarrow> resourcePriority d = 6"
  "GetKind d = ''Deployment'' \<Longrightarrow> resourcePriority d = 7"
  by (simp_all add: resourcePriority_def)

lemma sorted_key_index_less:
  assumes "sorted (map f ys)" "i < length ys" "j < length ys" "f (ys ! i) < f (ys ! j)"
  shows "i < j"
proof (rule ccontr)
  assume "\<not> i < j"
  then have "j \<le> i" by simp
  with assms(1,2) have "map f ys ! j \<le> map f ys ! i"
    by (simp add: sorted_iff_nth_mono del: nth_map)
  with assms(2,3,4) show False by simp
qed

text \<open>
  C6. In the order produced by the export engine, a Namespace stands before a ConfigMap,
  a ConfigMap before a Deployment (and so a Namespace before a Deployment), whatever the
  order of the input; the apply engine produces the same order, by the same priority
  function; the ordered list has the elements of the input.
\<close>

theorem priority_order:
  assumes "i < length xs" and "j < length xs"
    and "(GetKind (exportResources_order xs ! i) = ''Namespace''
            \<and> GetKind (exportResources_order xs ! j) = ''ConfigMap'')
         \<or> (GetKind (exportResources_order xs ! i) = ''ConfigMap''
            \<and> GetKind (exportResources_order xs ! j) = ''Deployment'')
         \<or> (GetKind (exportResources_order xs ! i) = ''Namespace''
            \<and> GetKind (exportResources_order xs ! j) = ''Deployment'')"
  shows "i < j
    \<and> applyResources_order xs = exportResources_order xs
    \<and> set (exportResources_order xs) = set xs
    \<and> length (exportResources_order xs) = length xs"
proof -
  let ?ys = "exportResources_order xs"
  have len: "length ?ys = length xs" by (simp add: exportResources_order_def)
  have srt: "sorted (map resourcePriority ?ys)" by (simp add: exportResources_order_def)
  from assms(3) have "resourcePriority (?ys ! i) < resourcePriority (?ys ! j)"
    by (auto simp: resourcePriority_kinds)
  with srt assms(1,2) len have "i < j"
    using sorted_key_index_less [of resourcePriority ?ys i j] by simp
  then show ?thesis
    by (simp add: exportResources_order_def applyResources_order_def)
qed

lemma resourcePriority_exampleDocument:
  "resourcePriority (exampleDocument ''Namespace'' ns n) = 0"
  "resourcePriority (exampleDocument ''ConfigMap'' ns n) = 6"
  "resourcePriority (exampleDocument ''Deployment'' ns n) = 7"
  by (simp_all add: resourcePriority_kinds GetKind_exampleDocument)

lemma exportResources_order_example:
  "exportResources_order
     [exampleDocument ''Deployment'' ''app1'' ''web'',
      exampleDocument ''ConfigMap'' ''app1'' ''settings'',
      exampleDocument ''Namespace'' [] ''app1'']
   = [exampleDocument ''Namespace'' [] ''app1'',
      exampleDocument ''ConfigMap'' ''app1'' ''settings'',
      exampleDocument ''Deployment'' ''app1'' ''web'']"
  by (simp add: exportResources_order_def resourcePriority_exampleDocument)

theorem priority_order_witness:
  "GetKind (exportResources_order
     [exampleDocument ''Deployment'' ''app1'' ''web'',
      exampleDocument ''ConfigMap'' ''app1'' ''settings'',
      exampleDocument ''Namespace'' [] ''app1''] ! 0) = ''Namespace''
   \<and> GetKind (exportResources_order
     [exampleDocument ''Deployment'' ''app1'' ''web'',
      exampleDocument ''ConfigMap'' ''app1'' ''settings'',
      exampleDocument ''Namespace'' [] ''app1''] ! 1) = ''ConfigMap''
   \<and> (0::nat) < 1
   \<and> applyResources_order
     [exampleDocument ''Deployment'' ''app1'' ''web'',
      exampleDocument ''ConfigMap'' ''app1'' ''settings'',
      exampleDocument ''Namespace'' [] ''app1'']
     = [exampleDocument ''Namespace'' [] ''app1'',
      exampleDocument ''ConfigMap'' ''app1'' ''settings'',
      exampleDocument ''Deployment'' ''app1'' ''web'']"
  using priority_order
    [of 0 "[exampleDocument ''Deployment'' ''app1'' ''web'',
      exampleDocument ''ConfigMap'' ''app1'' ''settings'',
      exampleDocument ''Namespace'' [] ''app1'']" 1]
  by (simp add: exportResources_order_example GetKind_exampleDocument)

subsection \<open>Upsert of one document and fail-fast loop\<close>







lemma exampleDocument_metadata:
  "fmlookup (exampleDocument k ns n) ''metadata''
     = Some (JMap (fmupd ''namespace'' (JString ns) (fmupd ''name'' (JString n) fmempty)))"
  by (simp add: exampleDocument_def)





lemma GetNamespace_SetResourceVersion:
  "GetNamespace (SetResourceVersion obj []) = GetNamespace obj"
  by (auto simp: GetNamespace_def SetResourceVersion_def getNestedString_def
      split: option.splits json.splits)


subsection \<open>Archive round trip\<close>






subsection \<open>Namespace scope\<close>

text \<open>
  C8. For a namespace-scoped request (kind Backup) the scope is the one-element list of
  the request's own namespace. For a cluster-scoped request, when the clientset is built
  and (where needed) the cluster's namespaces are listed, the scope is sorted ascending
  and holds exactly the names of the explicit included list if that list is not empty,
  otherwise of the cluster's namespaces, without the excluded names.
\<close>

theorem resolveNamespaces_scope:
  "(kind backup = ''Backup''
      \<longrightarrow> resolveNamespaces ce ln backup = Inr [namespace backup])
   \<and> (kind backup \<noteq> ''Backup'' \<and> ce = None \<and> namespaces backup = Some sel
        \<and> Included sel \<noteq> []
      \<longrightarrow> (\<exists>r. resolveNamespaces ce ln backup = Inr r \<and> sorted r
             \<and> mset r = mset (filter (\<lambda>ns. ns \<notin> set (Excluded sel)) (Included sel))))
   \<and> (kind backup \<noteq> ''Backup'' \<and> ce = None \<and> namespaces backup = Some sel
        \<and> Included sel = [] \<and> ln = Inr cluster
      \<longrightarrow> (\<exists>r. resolveNamespaces ce ln backup = Inr r \<and> sorted r
             \<and> mset r = mset (filter (\<lambda>ns. ns \<notin> set (Excluded sel)) cluster)))
   \<and> (kind backup \<noteq> ''Backup'' \<and> ce = None \<and> namespaces backup = None
        \<and> ln = Inr cluster
      \<longrightarrow> (\<exists>r. resolveNamespaces ce ln backup = Inr r \<and> sorted r
             \<and> mset r = mset cluster))"
  by (auto simp: resolveNamespaces_def Let_def filter_id_conv)

theorem resolveNamespaces_scope_witness:
  "resolveNamespaces None (Inr [''kube-system'', ''app2'', ''app1''])
       (exampleBackupObject ''Backup'' ''app1'' None) = Inr [''app1'']
   \<and> resolveNamespaces None (Inr [''kube-system'', ''app2'', ''app1''])
       (exampleBackupObject ''ClusterBackup'' []
          (Some \<lparr>Included = [''web'', ''db'', ''cache''], Excluded = [''db'']\<rparr>))
       = Inr [''cache'', ''web'']
   \<and> resolveNamespaces None (Inr [''kube-system'', ''app2'', ''app1''])
       (exampleBackupObject ''ClusterBackup'' []
          (Some \<lparr>Included = [], Excluded = [''kube-system'']\<rparr>))
       = Inr [''app1'', ''app2'']
   \<and> resolveNamespaces None (Inr [''kube-system'', ''app2'', ''app1''])
       (exampleBackupObject ''ClusterBackup'' [] None)
       = Inr [''app1'', ''app2'', ''kube-system'']"
proof -
  let ?ln = "Inr [''kube-system'', ''app2'', ''app1''] :: error + string list"
  have e: "resolveNamespaces None ?ln (exampleBackupObject ''ClusterBackup'' []
          (Some \<lparr>Included = [''web'', ''db'', ''cache''], Excluded = [''db'']\<rparr>))
       = Inr [''cache'', ''web'']"
    "resolveNamespaces None ?ln (exampleBackupObject ''ClusterBackup'' []
          (Some \<lparr>Included = [], Excluded = [''kube-system'']\<rparr>))
       = Inr [''app1'', ''app2'']"
    "resolveNamespaces None ?ln (exampleBackupObject ''ClusterBackup'' [] None)
       = Inr [''app1'', ''app2'', ''kube-system'']"
    by (simp_all add: resolveNamespaces_def exampleBackupObject_def)
  from
    resolveNamespaces_scope
      [of "exampleBackupObject ''Backup'' ''app1'' None" None ?ln]
    resolveNamespaces_scope
      [of "exampleBackupObject ''ClusterBackup'' []
          (Some \<lparr>Included = [''web'', ''db'', ''cache''], Excluded = [''db'']\<rparr>)" None ?ln
          "\<lparr>Included = [''web'', ''db'', ''cache''], Excluded = [''db'']\<rparr>"]
    resolveNamespaces_scope
      [of "exampleBackupObject ''ClusterBackup'' []
          (Some \<lparr>Included = [], Excluded = [''kube-system'']\<rparr>)" None ?ln
          "\<lparr>Included = [], Excluded = [''kube-system'']\<rparr>"
          "[''kube-system'', ''app2'', ''app1'']"]
    resolveNamespaces_scope
      [of "exampleBackupObject ''ClusterBackup'' [] None" None ?ln _
          "[''kube-system'', ''app2'', ''app1'']"]
  show ?thesis
    using e by (simp add: exampleBackupObject_def)
qed

subsection \<open>Statuses written by the dispatcher and the workers\<close>

lemma writeStatus_cases:
  "writeStatus env written st = ((0, Some err), ws) \<Longrightarrow> ws = written"
  "snd (writeStatus env written st) = written \<or> snd (writeStatus env written st) = written @ [st]"
  by (auto simp: writeStatus_def split: option.splits)

lemma reconcileBackupStatus_found:
  assumes "envFindJob env = Inr (Some job)"
  shows "reconcileBackupStatus env k n ns uid gen sp st =
    (if jobSucceeded job > 0 \<and> Phase st \<noteq> BackupPhaseCompleted then
       (case envStatusUpdate env (st\<lparr>Phase := BackupPhaseCompleted, ObservedGeneration := gen\<rparr>) of
          Some err \<Rightarrow> ((0, Some err), [])
        | None \<Rightarrow>
            if jobFailed job > 0 then
              failBackup env [st\<lparr>Phase := BackupPhaseCompleted, ObservedGeneration := gen\<rparr>]
                (st\<lparr>Phase := BackupPhaseCompleted, ObservedGeneration := gen\<rparr>) gen
                ''backup job failed''
            else ((0, None), [st\<lparr>Phase := BackupPhaseCompleted, ObservedGeneration := gen\<rparr>]))
     else if jobFailed job > 0 \<and> Phase st \<noteq> BackupPhaseFailed then
       failBackup env [] st gen ''backup job failed''
     else ((0, None), []))"
  using assms
  by (simp add: reconcileBackupStatus_def Let_def split: option.splits)

lemma failBackup_written:
  "snd (failBackup env written st gen msg) = written
   \<or> snd (failBackup env written st gen msg)
      = written @ [st\<lparr>Phase := BackupPhaseFailed, Message := msg,
                       CompletedAt := Some (envNow env), ObservedGeneration := gen\<rparr>]"
  by (simp add: failBackup_def writeStatus_def split: option.splits)

lemma reconcileBackupStatus_found_props:
  assumes "envFindJob env = Inr (Some job)"
  shows "(\<forall>w \<in> set (snd (reconcileBackupStatus env k n ns uid gen sp st)).
            Phase w = BackupPhaseCompleted \<or> Phase w = BackupPhaseFailed)"
    and "jobSucceeded job \<le> 0 \<Longrightarrow> jobFailed job \<le> 0
         \<Longrightarrow> snd (reconcileBackupStatus env k n ns uid gen sp st) = []"
    and "Phase st = BackupPhaseCompleted \<Longrightarrow> jobFailed job \<le> 0
         \<Longrightarrow> snd (reconcileBackupStatus env k n ns uid gen sp st) = []"
    and "Phase st = BackupPhaseFailed \<Longrightarrow> jobSucceeded job \<le> 0
         \<Longrightarrow> snd (reconcileBackupStatus env k n ns uid gen sp st) = []"
    and "jobSucceeded job > 0 \<Longrightarrow> jobFailed job \<le> 0 \<Longrightarrow> Phase st \<noteq> BackupPhaseCompleted
         \<Longrightarrow> envStatusUpdate env (st\<lparr>Phase := BackupPhaseCompleted, ObservedGeneration := gen\<rparr>) = None
         \<Longrightarrow> snd (reconcileBackupStatus env k n ns uid gen sp st)
             = [st\<lparr>Phase := BackupPhaseCompleted, ObservedGeneration := gen\<rparr>]"
    and "\<forall>w \<in> set (snd (reconcileBackupStatus env k n ns uid gen sp st)).
            ArtifactLocation w = ArtifactLocation st"
  using failBackup_written [of env "[]" st gen "''backup job failed''"]
    failBackup_written [of env "[st\<lparr>Phase := BackupPhaseCompleted, ObservedGeneration := gen\<rparr>]"
      "st\<lparr>Phase := BackupPhaseCompleted, ObservedGeneration := gen\<rparr>" gen "''backup job failed''"]
  by (auto simp: reconcileBackupStatus_found [OF assms] split: option.splits)


lemma failClusterRestore_written:
  "snd (failClusterRestore env written st gen msg) = written
   \<or> snd (failClusterRestore env written st gen msg)
      = written @ [st\<lparr>rPhase := RestorePhaseFailed, rMessage := msg,
                       rCompletedAt := Some (envNow env), rObservedGeneration := gen\<rparr>]"
  by (simp add: failClusterRestore_def writeStatus_def split: option.splits)

lemma ClusterRestore_found:
  assumes "envFindJob env = Inr (Some job)"
    and "getBackupForRestore c restore = Inr src"
    and "crDeletionTimestamp restore = None"
    and "ArtifactLocation (bStatus src) \<noteq> []"
  shows "ClusterRestoreReconciler_Reconcile env c (Inr restore) =
    (if jobSucceeded job > 0 \<and> rPhase (crStatus restore) \<noteq> RestorePhaseCompleted then
       (case envStatusUpdate env
               ((crStatus restore)\<lparr>rPhase := RestorePhaseCompleted,
                                   rObservedGeneration := crGeneration restore\<rparr>) of
          Some err \<Rightarrow> ((0, Some err), [])
        | None \<Rightarrow>
            if jobFailed job > 0 then
              failClusterRestore env
                [(crStatus restore)\<lparr>rPhase := RestorePhaseCompleted,
                                    rObservedGeneration := crGeneration restore\<rparr>]
                ((crStatus restore)\<lparr>rPhase := RestorePhaseCompleted,
                                    rObservedGeneration := crGeneration restore\<rparr>)
                (crGeneration restore) ''restore job failed''
            else ((0, None),
                  [(crStatus restore)\<lparr>rPhase := RestorePhaseCompleted,
                                      rObservedGeneration := crGeneration restore\<rparr>]))
     else if jobFailed job > 0 \<and> rPhase (crStatus restore) \<noteq> RestorePhaseFailed then
       failClusterRestore env [] (crStatus restore) (crGeneration restore) ''restore job failed''
     else ((0, None), []))"
  using assms
  by (simp add: ClusterRestoreReconciler_Reconcile_def Let_def split: option.splits)

lemma ClusterRestore_requeue:
  assumes "envFindJob env = Inr found"
    and "getBackupForRestore c restore = Inr src"
    and "ArtifactLocation (bStatus src) = []"
  shows "snd (ClusterRestoreReconciler_Reconcile env c (Inr restore)) = []"
  using assms by (simp add: ClusterRestoreReconciler_Reconcile_def)

lemma ClusterRestore_deleted:
  assumes "crDeletionTimestamp restore \<noteq> None"
  shows "snd (ClusterRestoreReconciler_Reconcile env c (Inr restore)) = []"
  using assms by (auto simp: ClusterRestoreReconciler_Reconcile_def)

lemma ClusterRestore_found_props:
  assumes "envFindJob env = Inr (Some job)"
    and "getBackupForRestore c restore = Inr src"
  shows "(\<forall>w \<in> set (snd (ClusterRestoreReconciler_Reconcile env c (Inr restore))).
            rPhase w = RestorePhaseCompleted \<or> rPhase w = RestorePhaseFailed)"
    and "jobSucceeded job \<le> 0 \<Longrightarrow> jobFailed job \<le> 0
         \<Longrightarrow> snd (ClusterRestoreReconciler_Reconcile env c (Inr restore)) = []"
    and "rPhase (crStatus restore) = RestorePhaseCompleted \<Longrightarrow> jobFailed job \<le> 0
         \<Longrightarrow> snd (ClusterRestoreReconciler_Reconcile env c (Inr restore)) = []"
    and "rPhase (crStatus restore) = RestorePhaseFailed \<Longrightarrow> jobSucceeded job \<le> 0
         \<Longrightarrow> snd (ClusterRestoreReconciler_Reconcile env c (Inr restore)) = []"
proof -
  let ?R = "snd (ClusterRestoreReconciler_Reconcile env c (Inr restore))"
  consider (del) "crDeletionTimestamp restore \<noteq> None"
    | (req) "ArtifactLocation (bStatus src) = []"
    | (run) "crDeletionTimestamp restore = None" "ArtifactLocation (bStatus src) \<noteq> []"
    by blast
  then have "(\<forall>w \<in> set ?R. rPhase w = RestorePhaseCompleted \<or> rPhase w = RestorePhaseFailed)
      \<and> (jobSucceeded job \<le> 0 \<longrightarrow> jobFailed job \<le> 0 \<longrightarrow> ?R = [])
      \<and> (rPhase (crStatus restore) = RestorePhaseCompleted \<longrightarrow> jobFailed job \<le> 0 \<longrightarrow> ?R = [])
      \<and> (rPhase (crStatus restore) = RestorePhaseFailed \<longrightarrow> jobSucceeded job \<le> 0 \<longrightarrow> ?R = [])"
  proof cases
    case del
    then show ?thesis by (simp add: ClusterRestore_deleted)
  next
    case req
    then show ?thesis by (simp add: ClusterRestore_requeue [OF assms(1,2)])
  next
    case run
    show ?thesis
      using failClusterRestore_written [of env "[]" "crStatus restore" "crGeneration restore"
          "''restore job failed''"]
        failClusterRestore_written [of env
          "[(crStatus restore)\<lparr>rPhase := RestorePhaseCompleted,
                                rObservedGeneration := crGeneration restore\<rparr>]"
          "(crStatus restore)\<lparr>rPhase := RestorePhaseCompleted,
                                rObservedGeneration := crGeneration restore\<rparr>"
          "crGeneration restore" "''restore job failed''"]
      by (auto simp: ClusterRestore_found [OF assms run] split: option.splits)
  qed
  then show
    "(\<forall>w \<in> set ?R. rPhase w = RestorePhaseCompleted \<or> rPhase w = RestorePhaseFailed)"
    "jobSucceeded job \<le> 0 \<Longrightarrow> jobFailed job \<le> 0 \<Longrightarrow> ?R = []"
    "rPhase (crStatus restore) = RestorePhaseCompleted \<Longrightarrow> jobFailed job \<le> 0 \<Longrightarrow> ?R = []"
    "rPhase (crStatus restore) = RestorePhaseFailed \<Longrightarrow> jobSucceeded job \<le> 0 \<Longrightarrow> ?R = []"
    by blast+
qed

lemma updateStatus_written:
  "snd (updateStatus upd st) = [] \<or> snd (updateStatus upd st) = [st]"
  by (simp add: updateStatus_def split: option.splits)

lemma storeArtifact_nonempty:
  "storeArtifact se storage artifactPath backup timestamp = Inr location \<Longrightarrow> location \<noteq> []"
  by (auto simp: storeArtifact_def Let_def
      split: StorageLocationType.splits sum.splits option.splits)

lemma in_updateStatus:
  "w \<in> set (snd (updateStatus upd st)) \<longleftrightarrow> upd st = None \<and> w = st"
  by (auto simp: updateStatus_def split: option.splits)

lemma length_updateStatus: "length (snd (updateStatus upd st)) \<le> Suc 0"
  by (simp add: updateStatus_def split: option.splits)

lemma storeArtifact_not_empty:
  "storeArtifact se storage artifactPath backup timestamp \<noteq> Inr []"
  using storeArtifact_nonempty by blast

lemma runBackupWorker_writes:
  assumes "wLoadBackupObject env = Inr backup"
  shows "\<forall>w \<in> set (snd (runBackupWorker env)).
      (Phase w = BackupPhaseCompleted \<and> ArtifactLocation w \<noteq> [])
      \<or> (Phase w = BackupPhaseFailed
          \<and> ArtifactLocation w = ArtifactLocation (status backup))"
  unfolding runBackupWorker_def Let_def assms
  apply (simp add: in_updateStatus writeTarGz_def failedBackupStatus_def Let_def
      split: sum.split option.split)
  apply (blast dest: storeArtifact_nonempty)
  done

lemma length_runBackupWorker: "length (snd (runBackupWorker env)) \<le> Suc 0"
  unfolding runBackupWorker_def Let_def
  by (simp add: length_updateStatus writeTarGz_def split: sum.split option.split)

lemma runRestoreWorker_writes:
  "\<forall>w \<in> set (snd (fst (runRestoreWorker env))).
      rPhase w = RestorePhaseCompleted \<or> rPhase w = RestorePhaseFailed"
  unfolding runRestoreWorker_def Let_def
  by (simp add: in_updateStatus failedRestoreStatus_def Let_def
      split: sum.split option.split prod.split)

lemma length_runRestoreWorker: "length (snd (fst (runRestoreWorker env))) \<le> Suc 0"
  unfolding runRestoreWorker_def Let_def
  by (simp add: length_updateStatus split: sum.split option.split prod.split)

lemma runBackupWorker_phases:
  "\<forall>w \<in> set (snd (runBackupWorker env)).
      Phase w = BackupPhaseCompleted \<or> Phase w = BackupPhaseFailed"
proof (cases "wLoadBackupObject env")
  case (Inl err)
  then show ?thesis by (simp add: runBackupWorker_def)
next
  case (Inr backup)
  from runBackupWorker_writes [OF this] show ?thesis by blast
qed

subsection \<open>Phases and artifact location\<close>

lemma BackupReconciler_found:
  "bDeletionTimestamp backup = None \<Longrightarrow>
   BackupReconciler_Reconcile env (Inr backup)
     = reconcileBackupStatus env ''Backup'' (bName backup) (bNamespace backup) (bUID backup)
         (bGeneration backup) (bSpec backup) (bStatus backup)"
  "bDeletionTimestamp backup \<noteq> None \<Longrightarrow>
   BackupReconciler_Reconcile env (Inr backup) = ((0, None), [])"
  by (auto simp: BackupReconciler_Reconcile_def)

lemma ClusterBackupReconciler_found:
  "cbDeletionTimestamp backup = None \<Longrightarrow>
   ClusterBackupReconciler_Reconcile env (Inr backup)
     = reconcileBackupStatus env ''ClusterBackup'' (cbName backup) [] (cbUID backup)
         (cbGeneration backup) (cbSpec backup) (cbStatus backup)"
  "cbDeletionTimestamp backup \<noteq> None \<Longrightarrow>
   ClusterBackupReconciler_Reconcile env (Inr backup) = ((0, None), [])"
  by (auto simp: ClusterBackupReconciler_Reconcile_def)

lemma BackupReconciler_found_props:
  assumes "envFindJob env = Inr (Some job)"
  shows "(\<forall>w \<in> set (snd (BackupReconciler_Reconcile env (Inr backup))).
            Phase w = BackupPhaseCompleted \<or> Phase w = BackupPhaseFailed)
    \<and> (jobSucceeded job \<le> 0 \<and> jobFailed job \<le> 0
         \<longrightarrow> snd (BackupReconciler_Reconcile env (Inr backup)) = [])
    \<and> (Phase (bStatus backup) = BackupPhaseCompleted \<and> jobFailed job \<le> 0
         \<longrightarrow> snd (BackupReconciler_Reconcile env (Inr backup)) = [])
    \<and> (Phase (bStatus backup) = BackupPhaseFailed \<and> jobSucceeded job \<le> 0
         \<longrightarrow> snd (BackupReconciler_Reconcile env (Inr backup)) = [])"
proof (cases "bDeletionTimestamp backup = None")
  case True
  show ?thesis
    unfolding BackupReconciler_found(1) [OF True]
    using reconcileBackupStatus_found_props(1-4)
      [OF assms, where k = "''Backup''" and n = "bName backup" and ns = "bNamespace backup"
        and uid = "bUID backup" and gen = "bGeneration backup" and sp = "bSpec backup"
        and st = "bStatus backup"]
    by auto
next
  case False
  then show ?thesis by (simp add: BackupReconciler_found(2))
qed

lemma ClusterBackupReconciler_found_props:
  assumes "envFindJob env = Inr (Some job)"
  shows "(\<forall>w \<in> set (snd (ClusterBackupReconciler_Reconcile env (Inr backup))).
            Phase w = BackupPhaseCompleted \<or> Phase w = BackupPhaseFailed)
    \<and> (jobSucceeded job \<le> 0 \<and> jobFailed job \<le> 0
         \<longrightarrow> snd (ClusterBackupReconciler_Reconcile env (Inr backup)) = [])
    \<and> (Phase (cbStatus backup) = BackupPhaseCompleted \<and> jobFailed job \<le> 0
         \<longrightarrow> snd (ClusterBackupReconciler_Reconcile env (Inr backup)) = [])
    \<and> (Phase (cbStatus backup) = BackupPhaseFailed \<and> jobSucceeded job \<le> 0
         \<longrightarrow> snd (ClusterBackupReconciler_Reconcile env (Inr backup)) = [])"
proof (cases "cbDeletionTimestamp backup = None")
  case True
  show ?thesis
    unfolding ClusterBackupReconciler_found(1) [OF True]
    using reconcileBackupStatus_found_props(1-4)
      [OF assms, where k = "''ClusterBackup''" and n = "cbName backup" and ns = "[]"
        and uid = "cbUID backup" and gen = "cbGeneration backup" and sp = "cbSpec backup"
        and st = "cbStatus backup"]
    by auto
next
  case False
  then show ?thesis by (simp add: ClusterBackupReconciler_found(2))
qed



lemma reconcile_example_eval:
  "reconcileBackupStatus (exampleReconcileEnv (Some job)) k n ns uid gen sp st =
    (if jobSucceeded job > 0 \<and> Phase st \<noteq> BackupPhaseCompleted then
       (if jobFailed job > 0 then
          ((0, None),
           [st\<lparr>Phase := BackupPhaseCompleted, ObservedGeneration := gen\<rparr>,
            st\<lparr>Phase := BackupPhaseFailed, ObservedGeneration := gen,
               Message := ''backup job failed'', CompletedAt := Some 100\<rparr>])
        else ((0, None), [st\<lparr>Phase := BackupPhaseCompleted, ObservedGeneration := gen\<rparr>]))
     else if jobFailed job > 0 \<and> Phase st \<noteq> BackupPhaseFailed then
       ((0, None),
        [st\<lparr>Phase := BackupPhaseFailed, Message := ''backup job failed'',
            CompletedAt := Some 100, ObservedGeneration := gen\<rparr>])
     else ((0, None), []))"
proof -
  have f: "envFindJob (exampleReconcileEnv (Some job) :: BackupStatus reconcileEnv)
      = Inr (Some job)"
    by (simp add: exampleReconcileEnv_def)
  have u: "envStatusUpdate (exampleReconcileEnv (Some job) :: BackupStatus reconcileEnv) x = None"
    for x by (simp add: exampleReconcileEnv_def)
  have n: "envNow (exampleReconcileEnv (Some job) :: BackupStatus reconcileEnv) = 100"
    by (simp add: exampleReconcileEnv_def)
  show ?thesis
    unfolding reconcileBackupStatus_found [OF f]
    by (simp add: failBackup_def writeStatus_def u n)
qed

text \<open>
  C1, as the spec states it, fails. A Backup whose phase is Failed (its worker recorded
  a failure and ended without error) and whose job reports success is set to Completed
  by the reconcile; a Backup whose phase is Completed and whose job reports a failure is
  set to Failed.
\<close>

theorem phase_monotonic_counterexample:
  "Phase (bStatus (exampleBackup
      (exampleBackupStatus BackupPhaseFailed [] ''no BackupStorageLocation found'')))
     = BackupPhaseFailed
   \<and> map Phase (snd (BackupReconciler_Reconcile
        (exampleReconcileEnv (Some \<lparr>jobSucceeded = 1, jobFailed = 0\<rparr>))
        (Inr (exampleBackup
           (exampleBackupStatus BackupPhaseFailed [] ''no BackupStorageLocation found'')))))
     = [BackupPhaseCompleted]
   \<and> Phase (bStatus (exampleBackup
      (exampleBackupStatus BackupPhaseCompleted ''s3://backups/demo/backup.tar.gz''
         ''backup completed'')))
     = BackupPhaseCompleted
   \<and> map Phase (snd (BackupReconciler_Reconcile
        (exampleReconcileEnv (Some \<lparr>jobSucceeded = 0, jobFailed = 1\<rparr>))
        (Inr (exampleBackup
           (exampleBackupStatus BackupPhaseCompleted ''s3://backups/demo/backup.tar.gz''
              ''backup completed'')))))
     = [BackupPhaseFailed]"
  by (simp add: BackupReconciler_Reconcile_def exampleBackup_def reconcile_example_eval
      exampleBackupStatus_def)


lemma runBackupWorker_example_completed:
  "map Phase (snd (runBackupWorker
     (exampleBackupWorkerEnv (exampleBackupStatus BackupPhaseRunning [] []) (Inr [45, 45, 45, 10]))))
   = [BackupPhaseCompleted]"
  "map ArtifactLocation (snd (runBackupWorker
     (exampleBackupWorkerEnv (exampleBackupStatus BackupPhaseRunning [] []) (Inr [45, 45, 45, 10]))))
   = [''nfs://10.0.0.10/exports/backups/cluster-a/backup/app1/nightly/20260101T000000Z/backup.tar.gz'']"
  by (simp_all add: runBackupWorker_def exampleBackupWorkerEnv_def exampleBackupObject_def
      StorageLocation_def exampleLocation_def writeTarGz_def storeArtifact_def storeToNFS_def
      exampleStorageEnv_def updateStatus_def Let_def namespaceSegment_def artifactFileName_def)


lemma runRestoreWorker_example_failed:
  "map rPhase (snd (fst (runRestoreWorker
     (exampleRestoreWorkerEnv (exampleRestoreStatus RestorePhaseRunning [])))))
   = [RestorePhaseFailed]"
  by (simp add: runRestoreWorker_def exampleRestoreWorkerEnv_def loadBackupReference_def
      failedRestoreStatus_def updateStatus_def Let_def)

lemma getBackupForRestore_example:
  "getBackupForRestore exampleSourceLookup (exampleClusterRestore st)
   = Inr \<lparr>bName = ''full'', bNamespace = [], bUID = [], bGeneration = 0,
          bDeletionTimestamp = None, bSpec = \<lparr>StorageRef = None, Timeout = None\<rparr>,
          bStatus = exampleBackupStatus BackupPhaseCompleted
            ''nfs://10.0.0.10/exports/backups/c/clusterbackup/cluster/full/t/backup.tar.gz''
            ''backup completed''\<rparr>"
  by (simp add: getBackupForRestore_def exampleSourceLookup_def exampleClusterRestore_def
      exampleClusterBackup_def)

lemma reconcileBackupStatus_forced:
  assumes "envFindJob env = Inr (Some job)" and "\<forall>x. envStatusUpdate env x = None"
  shows "jobSucceeded job > 0 \<and> jobFailed job \<le> 0 \<and> Phase st \<noteq> BackupPhaseCompleted
         \<longrightarrow> map Phase (snd (reconcileBackupStatus env k n ns uid gen sp st))
             = [BackupPhaseCompleted]"
    and "jobFailed job > 0 \<and> jobSucceeded job \<le> 0 \<and> Phase st \<noteq> BackupPhaseFailed
         \<longrightarrow> map Phase (snd (reconcileBackupStatus env k n ns uid gen sp st))
             = [BackupPhaseFailed]"
  using assms(2)
  by (auto simp: reconcileBackupStatus_found [OF assms(1)] failBackup_def writeStatus_def)

lemma BackupReconciler_forced:
  assumes "envFindJob env = Inr (Some job)" and "\<forall>x. envStatusUpdate env x = None"
    and "bDeletionTimestamp backup = None"
  shows "(jobSucceeded job > 0 \<and> jobFailed job \<le> 0
          \<and> Phase (bStatus backup) \<noteq> BackupPhaseCompleted
         \<longrightarrow> map Phase (snd (BackupReconciler_Reconcile env (Inr backup)))
             = [BackupPhaseCompleted])
    \<and> (jobFailed job > 0 \<and> jobSucceeded job \<le> 0
          \<and> Phase (bStatus backup) \<noteq> BackupPhaseFailed
         \<longrightarrow> map Phase (snd (BackupReconciler_Reconcile env (Inr backup)))
             = [BackupPhaseFailed])"
  unfolding BackupReconciler_found(1) [OF assms(3)]
  using reconcileBackupStatus_forced [OF assms(1,2)] by blast

lemma ClusterBackupReconciler_forced:
  assumes "envFindJob env = Inr (Some job)" and "\<forall>x. envStatusUpdate env x = None"
    and "cbDeletionTimestamp backup = None"
  shows "(jobSucceeded job > 0 \<and> jobFailed job \<le> 0
          \<and> Phase (cbStatus backup) \<noteq> BackupPhaseCompleted
         \<longrightarrow> map Phase (snd (ClusterBackupReconciler_Reconcile env (Inr backup)))
             = [BackupPhaseCompleted])
    \<and> (jobFailed job > 0 \<and> jobSucceeded job \<le> 0
          \<and> Phase (cbStatus backup) \<noteq> BackupPhaseFailed
         \<longrightarrow> map Phase (snd (ClusterBackupReconciler_Reconcile env (Inr backup)))
             = [BackupPhaseFailed])"
  unfolding ClusterBackupReconciler_found(1) [OF assms(3)]
  using reconcileBackupStatus_forced [OF assms(1,2)] by blast

lemma ClusterRestoreReconciler_forced:
  assumes "envFindJob env = Inr (Some job)" and "\<forall>x. envStatusUpdate env x = None"
    and "getBackupForRestore c restore = Inr src"
    and "crDeletionTimestamp restore = None"
    and "ArtifactLocation (bStatus src) \<noteq> []"
  shows "(jobSucceeded job > 0 \<and> jobFailed job \<le> 0
          \<and> rPhase (crStatus restore) \<noteq> RestorePhaseCompleted
         \<longrightarrow> map rPhase (snd (ClusterRestoreReconciler_Reconcile env c (Inr restore)))
             = [RestorePhaseCompleted])
    \<and> (jobFailed job > 0 \<and> jobSucceeded job \<le> 0
          \<and> rPhase (crStatus restore) \<noteq> RestorePhaseFailed
         \<longrightarrow> map rPhase (snd (ClusterRestoreReconciler_Reconcile env c (Inr restore)))
             = [RestorePhaseFailed])"
  using assms(2)
  by (auto simp: ClusterRestore_found [OF assms(1,3,4,5)] failClusterRestore_def writeStatus_def)

text \<open>
  C1, amended. For the Backup, ClusterBackup and ClusterRestore reconcilers: a reconcile
  that finds the request's worker job (and, for a ClusterRestore, its source backup)
  writes statuses of phase Completed or Failed only; it writes nothing when the job has
  neither succeeded nor failed; it leaves a phase already Completed as it is when the
  job has not failed, and a phase already Failed as it is when the job has not
  succeeded. Where the request is not being deleted and the status writes succeed, a
  reconcile that sees a succeeded job (and no failure) sets a phase other than
  Completed, Failed included, to Completed, and one that sees a failed job (and no
  success) sets a phase other than Failed, Completed included, to Failed. A backup
  worker and a restore worker write at most one status, of phase Completed or Failed.
\<close>

theorem phase_transitions:
  assumes "envFindJob env = Inr (Some job)"
    and "envFindJob renv = Inr (Some job)"
    and "getBackupForRestore c restore = Inr src"
  shows
    "((\<forall>w \<in> set (snd (BackupReconciler_Reconcile env (Inr backup))).
          Phase w = BackupPhaseCompleted \<or> Phase w = BackupPhaseFailed)
      \<and> (jobSucceeded job \<le> 0 \<and> jobFailed job \<le> 0
           \<longrightarrow> snd (BackupReconciler_Reconcile env (Inr backup)) = [])
      \<and> (Phase (bStatus backup) = BackupPhaseCompleted \<and> jobFailed job \<le> 0
           \<longrightarrow> snd (BackupReconciler_Reconcile env (Inr backup)) = [])
      \<and> (Phase (bStatus backup) = BackupPhaseFailed \<and> jobSucceeded job \<le> 0
           \<longrightarrow> snd (BackupReconciler_Reconcile env (Inr backup)) = []))
     \<and> ((\<forall>w \<in> set (snd (ClusterBackupReconciler_Reconcile env (Inr cbackup))).
          Phase w = BackupPhaseCompleted \<or> Phase w = BackupPhaseFailed)
      \<and> (jobSucceeded job \<le> 0 \<and> jobFailed job \<le> 0
           \<longrightarrow> snd (ClusterBackupReconciler_Reconcile env (Inr cbackup)) = [])
      \<and> (Phase (cbStatus cbackup) = BackupPhaseCompleted \<and> jobFailed job \<le> 0
           \<longrightarrow> snd (ClusterBackupReconciler_Reconcile env (Inr cbackup)) = [])
      \<and> (Phase (cbStatus cbackup) = BackupPhaseFailed \<and> jobSucceeded job \<le> 0
           \<longrightarrow> snd (ClusterBackupReconciler_Reconcile env (Inr cbackup)) = []))
     \<and> ((\<forall>w \<in> set (snd (ClusterRestoreReconciler_Reconcile renv c (Inr restore))).
          rPhase w = RestorePhaseCompleted \<or> rPhase w = RestorePhaseFailed)
      \<and> (jobSucceeded job \<le> 0 \<and> jobFailed job \<le> 0
           \<longrightarrow> snd (ClusterRestoreReconciler_Reconcile renv c (Inr restore)) = [])
      \<and> (rPhase (crStatus restore) = RestorePhaseCompleted \<and> jobFailed job \<le> 0
           \<longrightarrow> snd (ClusterRestoreReconciler_Reconcile renv c (Inr restore)) = [])
      \<and> (rPhase (crStatus restore) = RestorePhaseFailed \<and> jobSucceeded job \<le> 0
           \<longrightarrow> snd (ClusterRestoreReconciler_Reconcile renv c (Inr restore)) = []))
     \<and> ((\<forall>x. envStatusUpdate env x = None) \<and> bDeletionTimestamp backup = None
          \<longrightarrow>
            (jobSucceeded job > 0 \<and> jobFailed job \<le> 0
              \<and> Phase (bStatus backup) \<noteq> BackupPhaseCompleted
             \<longrightarrow> map Phase (snd (BackupReconciler_Reconcile env (Inr backup)))
                 = [BackupPhaseCompleted])
          \<and> (jobFailed job > 0 \<and> jobSucceeded job \<le> 0
              \<and> Phase (bStatus backup) \<noteq> BackupPhaseFailed
             \<longrightarrow> map Phase (snd (BackupReconciler_Reconcile env (Inr backup)))
                 = [BackupPhaseFailed]))
     \<and> ((\<forall>x. envStatusUpdate env x = None) \<and> cbDeletionTimestamp cbackup = None
          \<longrightarrow>
            (jobSucceeded job > 0 \<and> jobFailed job \<le> 0
              \<and> Phase (cbStatus cbackup) \<noteq> BackupPhaseCompleted
             \<longrightarrow> map Phase (snd (ClusterBackupReconciler_Reconcile env (Inr cbackup)))
                 = [BackupPhaseCompleted])
          \<and> (jobFailed job > 0 \<and> jobSucceeded job \<le> 0
              \<and> Phase (cbStatus cbackup) \<noteq> BackupPhaseFailed
             \<longrightarrow> map Phase (snd (ClusterBackupReconciler_Reconcile env (Inr cbackup)))
                 = [BackupPhaseFailed]))
     \<and> ((\<forall>x. envStatusUpdate renv x = None) \<and> crDeletionTimestamp restore = None
          \<and> ArtifactLocation (bStatus src) \<noteq> []
          \<longrightarrow>
            (jobSucceeded job > 0 \<and> jobFailed job \<le> 0
              \<and> rPhase (crStatus restore) \<noteq> RestorePhaseCompleted
             \<longrightarrow> map rPhase (snd (ClusterRestoreReconciler_Reconcile renv c (Inr restore)))
                 = [RestorePhaseCompleted])
          \<and> (jobFailed job > 0 \<and> jobSucceeded job \<le> 0
              \<and> rPhase (crStatus restore) \<noteq> RestorePhaseFailed
             \<longrightarrow> map rPhase (snd (ClusterRestoreReconciler_Reconcile renv c (Inr restore)))
                 = [RestorePhaseFailed]))
     \<and> (\<forall>w \<in> set (snd (runBackupWorker wenv)).
          Phase w = BackupPhaseCompleted \<or> Phase w = BackupPhaseFailed)
     \<and> length (snd (runBackupWorker wenv)) \<le> 1
     \<and> (\<forall>w \<in> set (snd (fst (runRestoreWorker rwenv))).
          rPhase w = RestorePhaseCompleted \<or> rPhase w = RestorePhaseFailed)
     \<and> length (snd (fst (runRestoreWorker rwenv))) \<le> 1"
proof -
  have fb: "(\<forall>x. envStatusUpdate env x = None) \<and> bDeletionTimestamp backup = None
          \<longrightarrow>
            (jobSucceeded job > 0 \<and> jobFailed job \<le> 0
              \<and> Phase (bStatus backup) \<noteq> BackupPhaseCompleted
             \<longrightarrow> map Phase (snd (BackupReconciler_Reconcile env (Inr backup)))
                 = [BackupPhaseCompleted])
          \<and> (jobFailed job > 0 \<and> jobSucceeded job \<le> 0
              \<and> Phase (bStatus backup) \<noteq> BackupPhaseFailed
             \<longrightarrow> map Phase (snd (BackupReconciler_Reconcile env (Inr backup)))
                 = [BackupPhaseFailed])"
    using BackupReconciler_forced [OF assms(1), of backup] by blast
  have fcb: "(\<forall>x. envStatusUpdate env x = None) \<and> cbDeletionTimestamp cbackup = None
          \<longrightarrow>
            (jobSucceeded job > 0 \<and> jobFailed job \<le> 0
              \<and> Phase (cbStatus cbackup) \<noteq> BackupPhaseCompleted
             \<longrightarrow> map Phase (snd (ClusterBackupReconciler_Reconcile env (Inr cbackup)))
                 = [BackupPhaseCompleted])
          \<and> (jobFailed job > 0 \<and> jobSucceeded job \<le> 0
              \<and> Phase (cbStatus cbackup) \<noteq> BackupPhaseFailed
             \<longrightarrow> map Phase (snd (ClusterBackupReconciler_Reconcile env (Inr cbackup)))
                 = [BackupPhaseFailed])"
    using ClusterBackupReconciler_forced [OF assms(1), of cbackup] by blast
  have fcr: "(\<forall>x. envStatusUpdate renv x = None) \<and> crDeletionTimestamp restore = None
          \<and> ArtifactLocation (bStatus src) \<noteq> []
          \<longrightarrow>
            (jobSucceeded job > 0 \<and> jobFailed job \<le> 0
              \<and> rPhase (crStatus restore) \<noteq> RestorePhaseCompleted
             \<longrightarrow> map rPhase (snd (ClusterRestoreReconciler_Reconcile renv c (Inr restore)))
                 = [RestorePhaseCompleted])
          \<and> (jobFailed job > 0 \<and> jobSucceeded job \<le> 0
              \<and> rPhase (crStatus restore) \<noteq> RestorePhaseFailed
             \<longrightarrow> map rPhase (snd (ClusterRestoreReconciler_Reconcile renv c (Inr restore)))
                 = [RestorePhaseFailed])"
    using ClusterRestoreReconciler_forced [OF assms(2) _ assms(3)] by blast
  note b = BackupReconciler_found_props [OF assms(1), of backup]
  note cb = ClusterBackupReconciler_found_props [OF assms(1), of cbackup]
  have cr: "(\<forall>w \<in> set (snd (ClusterRestoreReconciler_Reconcile renv c (Inr restore))).
          rPhase w = RestorePhaseCompleted \<or> rPhase w = RestorePhaseFailed)
      \<and> (jobSucceeded job \<le> 0 \<and> jobFailed job \<le> 0
           \<longrightarrow> snd (ClusterRestoreReconciler_Reconcile renv c (Inr restore)) = [])
      \<and> (rPhase (crStatus restore) = RestorePhaseCompleted \<and> jobFailed job \<le> 0
           \<longrightarrow> snd (ClusterRestoreReconciler_Reconcile renv c (Inr restore)) = [])
      \<and> (rPhase (crStatus restore) = RestorePhaseFailed \<and> jobSucceeded job \<le> 0
           \<longrightarrow> snd (ClusterRestoreReconciler_Reconcile renv c (Inr restore)) = [])"
    using ClusterRestore_found_props [OF assms(2,3)] by blast
  have w: "\<forall>w \<in> set (snd (runBackupWorker wenv)).
          Phase w = BackupPhaseCompleted \<or> Phase w = BackupPhaseFailed"
    by (rule runBackupWorker_phases)
  have lw: "length (snd (runBackupWorker wenv)) \<le> 1"
    using length_runBackupWorker [of wenv] by simp
  have rw: "\<forall>w \<in> set (snd (fst (runRestoreWorker rwenv))).
          rPhase w = RestorePhaseCompleted \<or> rPhase w = RestorePhaseFailed"
    by (rule runRestoreWorker_writes)
  have lrw: "length (snd (fst (runRestoreWorker rwenv))) \<le> 1"
    using length_runRestoreWorker [of rwenv] by simp
  from b cb cr fb fcb fcr w lw rw lrw show ?thesis by blast
qed

theorem phase_transitions_witness:
  "snd (BackupReconciler_Reconcile
          (exampleReconcileEnv (Some \<lparr>jobSucceeded = 1, jobFailed = 0\<rparr>))
          (Inr (exampleBackup
             (exampleBackupStatus BackupPhaseCompleted ''s3://backups/demo/backup.tar.gz''
                ''backup completed'')))) = []
   \<and> snd (ClusterRestoreReconciler_Reconcile
          (exampleReconcileEnv (Some \<lparr>jobSucceeded = 1, jobFailed = 0\<rparr>))
          exampleSourceLookup
          (Inr (exampleClusterRestore
             (exampleRestoreStatus RestorePhaseCompleted ''restore completed'')))) = []
   \<and> snd (ClusterBackupReconciler_Reconcile
          (exampleReconcileEnv (Some \<lparr>jobSucceeded = 0, jobFailed = 1\<rparr>))
          (Inr (exampleClusterBackup
             (exampleBackupStatus BackupPhaseFailed [] ''backup job failed'')))) = []
   \<and> snd (BackupReconciler_Reconcile
          (exampleReconcileEnv (Some \<lparr>jobSucceeded = 0, jobFailed = 0\<rparr>))
          (Inr (exampleBackup (exampleBackupStatus BackupPhaseRunning [] [])))) = []
   \<and> map Phase (snd (BackupReconciler_Reconcile
          (exampleReconcileEnv (Some \<lparr>jobSucceeded = 1, jobFailed = 0\<rparr>))
          (Inr (exampleBackup (exampleBackupStatus BackupPhaseRunning [] [])))))
       = [BackupPhaseCompleted]
   \<and> map Phase (snd (ClusterBackupReconciler_Reconcile
          (exampleReconcileEnv (Some \<lparr>jobSucceeded = 0, jobFailed = 1\<rparr>))
          (Inr (exampleClusterBackup (exampleBackupStatus BackupPhaseRunning [] [])))))
       = [BackupPhaseFailed]
   \<and> map rPhase (snd (ClusterRestoreReconciler_Reconcile
          (exampleReconcileEnv (Some \<lparr>jobSucceeded = 1, jobFailed = 0\<rparr>))
          exampleSourceLookup
          (Inr (exampleClusterRestore (exampleRestoreStatus RestorePhaseRunning [])))))
       = [RestorePhaseCompleted]
   \<and> map Phase (snd (runBackupWorker
          (exampleBackupWorkerEnv (exampleBackupStatus BackupPhaseRunning [] [])
             (Inr [45, 45, 45, 10])))) = [BackupPhaseCompleted]
   \<and> map rPhase (snd (fst (runRestoreWorker
          (exampleRestoreWorkerEnv (exampleRestoreStatus RestorePhaseRunning [])))))
       = [RestorePhaseFailed]"
proof -
  have f: "envFindJob (exampleReconcileEnv (Some j) :: 'st reconcileEnv) = Inr (Some j)" for j
    by (simp add: exampleReconcileEnv_def)
  note g = getBackupForRestore_example
  note i1 = phase_transitions
    [where env = "exampleReconcileEnv (Some \<lparr>jobSucceeded = 1, jobFailed = 0\<rparr>)"
        and renv = "exampleReconcileEnv (Some \<lparr>jobSucceeded = 1, jobFailed = 0\<rparr>)"
        and job = "\<lparr>jobSucceeded = 1, jobFailed = 0\<rparr>"
        and c = exampleSourceLookup
        and restore = "exampleClusterRestore (exampleRestoreStatus RestorePhaseCompleted ''restore completed'')"
        and backup = "exampleBackup (exampleBackupStatus BackupPhaseCompleted ''s3://backups/demo/backup.tar.gz''
                ''backup completed'')"
        and cbackup = "exampleClusterBackup (exampleBackupStatus BackupPhaseCompleted ''s3://backups/demo/backup.tar.gz''
                ''backup completed'')"
        and wenv = "exampleBackupWorkerEnv (exampleBackupStatus BackupPhaseRunning [] [])
             (Inr [45, 45, 45, 10])"
        and rwenv = "exampleRestoreWorkerEnv (exampleRestoreStatus RestorePhaseRunning [])",
      OF f f g]
  note i2 = phase_transitions
    [where env = "exampleReconcileEnv (Some \<lparr>jobSucceeded = 0, jobFailed = 1\<rparr>)"
        and renv = "exampleReconcileEnv (Some \<lparr>jobSucceeded = 0, jobFailed = 1\<rparr>)"
        and job = "\<lparr>jobSucceeded = 0, jobFailed = 1\<rparr>"
        and c = exampleSourceLookup
        and restore = "exampleClusterRestore (exampleRestoreStatus RestorePhaseFailed ''restore job failed'')"
        and backup = "exampleBackup (exampleBackupStatus BackupPhaseFailed [] ''backup job failed'')"
        and cbackup = "exampleClusterBackup (exampleBackupStatus BackupPhaseFailed [] ''backup job failed'')"
        and wenv = "exampleBackupWorkerEnv (exampleBackupStatus BackupPhaseRunning [] [])
             (Inr [45, 45, 45, 10])"
        and rwenv = "exampleRestoreWorkerEnv (exampleRestoreStatus RestorePhaseRunning [])",
      OF f f g]
  note i3 = phase_transitions
    [where env = "exampleReconcileEnv (Some \<lparr>jobSucceeded = 0, jobFailed = 0\<rparr>)"
        and renv = "exampleReconcileEnv (Some \<lparr>jobSucceeded = 0, jobFailed = 0\<rparr>)"
        and job = "\<lparr>jobSucceeded = 0, jobFailed = 0\<rparr>"
        and c = exampleSourceLookup
        and restore = "exampleClusterRestore (exampleRestoreStatus RestorePhaseRunning [])"
        and backup = "exampleBackup (exampleBackupStatus BackupPhaseRunning [] [])"
        and cbackup = "exampleClusterBackup (exampleBackupStatus BackupPhaseRunning [] [])"
        and wenv = "exampleBackupWorkerEnv (exampleBackupStatus BackupPhaseRunning [] [])
             (Inr [45, 45, 45, 10])"
        and rwenv = "exampleRestoreWorkerEnv (exampleRestoreStatus RestorePhaseRunning [])",
      OF f f g]
  note i4 = phase_transitions
    [where env = "exampleReconcileEnv (Some \<lparr>jobSucceeded = 1, jobFailed = 0\<rparr>)"
        and renv = "exampleReconcileEnv (Some \<lparr>jobSucceeded = 1, jobFailed = 0\<rparr>)"
        and job = "\<lparr>jobSucceeded = 1, jobFailed = 0\<rparr>"
        and c = exampleSourceLookup
        and restore = "exampleClusterRestore (exampleRestoreStatus RestorePhaseRunning [])"
        and backup = "exampleBackup (exampleBackupStatus BackupPhaseRunning [] [])"
        and cbackup = "exampleClusterBackup (exampleBackupStatus BackupPhaseRunning [] [])"
        and wenv = "exampleBackupWorkerEnv (exampleBackupStatus BackupPhaseRunning [] [])
             (Inr [45, 45, 45, 10])"
        and rwenv = "exampleRestoreWorkerEnv (exampleRestoreStatus RestorePhaseRunning [])",
      OF f f g]
  note i5 = phase_transitions
    [where env = "exampleReconcileEnv (Some \<lparr>jobSucceeded = 0, jobFailed = 1\<rparr>)"
        and renv = "exampleReconcileEnv (Some \<lparr>jobSucceeded = 0, jobFailed = 1\<rparr>)"
        and job = "\<lparr>jobSucceeded = 0, jobFailed = 1\<rparr>"
        and c = exampleSourceLookup
        and restore = "exampleClusterRestore (exampleRestoreStatus RestorePhaseRunning [])"
        and backup = "exampleBackup (exampleBackupStatus BackupPhaseRunning [] [])"
        and cbackup = "exampleClusterBackup (exampleBackupStatus BackupPhaseRunning [] [])"
        and wenv = "exampleBackupWorkerEnv (exampleBackupStatus BackupPhaseRunning [] [])
             (Inr [45, 45, 45, 10])"
        and rwenv = "exampleRestoreWorkerEnv (exampleRestoreStatus RestorePhaseRunning [])",
      OF f f g]
  note ex = exampleBackup_def exampleClusterBackup_def exampleClusterRestore_def
    exampleBackupStatus_def exampleRestoreStatus_def
  have u: "envStatusUpdate (exampleReconcileEnv j :: 'st reconcileEnv) x = None" for j x
    by (simp add: exampleReconcileEnv_def)
  have c5: "map Phase (snd (BackupReconciler_Reconcile
          (exampleReconcileEnv (Some \<lparr>jobSucceeded = 1, jobFailed = 0\<rparr>))
          (Inr (exampleBackup (exampleBackupStatus BackupPhaseRunning [] [])))))
       = [BackupPhaseCompleted]"
    using i4 by (simp add: ex u)
  have c6: "map Phase (snd (ClusterBackupReconciler_Reconcile
          (exampleReconcileEnv (Some \<lparr>jobSucceeded = 0, jobFailed = 1\<rparr>))
          (Inr (exampleClusterBackup (exampleBackupStatus BackupPhaseRunning [] [])))))
       = [BackupPhaseFailed]"
    using i5 by (simp add: ex u)
  have c7: "map rPhase (snd (ClusterRestoreReconciler_Reconcile
          (exampleReconcileEnv (Some \<lparr>jobSucceeded = 1, jobFailed = 0\<rparr>))
          exampleSourceLookup
          (Inr (exampleClusterRestore (exampleRestoreStatus RestorePhaseRunning [])))))
       = [RestorePhaseCompleted]"
    using i4 by (simp add: ex u)
  have c1: "snd (BackupReconciler_Reconcile
          (exampleReconcileEnv (Some \<lparr>jobSucceeded = 1, jobFailed = 0\<rparr>))
          (Inr (exampleBackup
             (exampleBackupStatus BackupPhaseCompleted ''s3://backups/demo/backup.tar.gz''
                ''backup completed'')))) = []"
    using i1 by (simp add: ex)
  have c2: "snd (ClusterRestoreReconciler_Reconcile
          (exampleReconcileEnv (Some \<lparr>jobSucceeded = 1, jobFailed = 0\<rparr>))
          exampleSourceLookup
          (Inr (exampleClusterRestore
             (exampleRestoreStatus RestorePhaseCompleted ''restore completed'')))) = []"
    using i1 by (simp add: ex)
  have c3: "snd (ClusterBackupReconciler_Reconcile
          (exampleReconcileEnv (Some \<lparr>jobSucceeded = 0, jobFailed = 1\<rparr>))
          (Inr (exampleClusterBackup
             (exampleBackupStatus BackupPhaseFailed [] ''backup job failed'')))) = []"
    using i2 by (simp add: ex)
  have c4: "snd (BackupReconciler_Reconcile
          (exampleReconcileEnv (Some \<lparr>jobSucceeded = 0, jobFailed = 0\<rparr>))
          (Inr (exampleBackup (exampleBackupStatus BackupPhaseRunning [] [])))) = []"
    using i3 by (simp add: ex)
  show ?thesis
    using c1 c2 c3 c4 c5 c6 c7 runBackupWorker_example_completed(1)
      runRestoreWorker_example_failed
    by simp
qed



end
